theory Spec2Isabelle
  imports Complex_Main "HOL-Library.Word" "HOL-Library.Multiset" "HOL-Library.Monad_Syntax"
begin

section \<open>Strings and JSON values\<close>

text \<open>
  A JavaScript string is a sequence of UTF-16 code units; \<open>slice\<close>, \<open>length\<close>, \<open>trim\<close>
  and the regular expressions of the routes all work on code units.
\<close>

type_synonym jsstring = "16 word list"

definition js :: "string \<Rightarrow> jsstring" where
  "js s = map (\<lambda>c. of_nat (of_char c)) s"

definition bar :: "16 word" where
  "bar = 0x7C"

definition is_digit :: "16 word \<Rightarrow> bool" where
  "is_digit c = (0x30 \<le> c \<and> c \<le> 0x39)"

text \<open>The class \<open>\s\<close> of a regular expression, which is also what \<open>trim\<close> strips:
  WhiteSpace and LineTerminator code points.\<close>

definition is_ws :: "16 word \<Rightarrow> bool" where
  "is_ws c = (c = 0x9 \<or> c = 0xA \<or> c = 0xB \<or> c = 0xC \<or> c = 0xD \<or> c = 0x20 \<or> c = 0xA0
     \<or> c = 0x1680 \<or> (0x2000 \<le> c \<and> c \<le> 0x200A) \<or> c = 0x2028 \<or> c = 0x2029
     \<or> c = 0x202F \<or> c = 0x205F \<or> c = 0x3000 \<or> c = 0xFEFF)"

definition trim :: "jsstring \<Rightarrow> jsstring" where
  "trim s = rev (dropWhile is_ws (rev (dropWhile is_ws s)))"

text \<open>\<open>s.replace(/\s+/g, " ")\<close>: every maximal run of whitespace becomes one space.\<close>

function collapse_ws :: "jsstring \<Rightarrow> jsstring" where
  "collapse_ws [] = []"
| "collapse_ws (c # cs) =
     (if is_ws c then 0x20 # collapse_ws (dropWhile is_ws cs) else c # collapse_ws cs)"
  by pat_completeness auto
termination
  by (relation "measure length") (auto simp: less_Suc_eq_le length_dropWhile_le)

definition normalizeSpaces :: "jsstring \<Rightarrow> jsstring" where
  "normalizeSpaces s = collapse_ws (trim s)"

text \<open>\<open>String(idx)\<close> for an array index: decimal digits, no leading zero.\<close>

function String_of_nat :: "nat \<Rightarrow> jsstring" where
  "String_of_nat n =
     (if n < 10 then [of_nat (48 + n)]
      else String_of_nat (n div 10) @ [of_nat (48 + n mod 10)])"
  by pat_completeness auto
termination
  by (relation "measure (\<lambda>n. n)") auto

text \<open>\<open>xs.join(sep)\<close>.\<close>

fun join :: "jsstring \<Rightarrow> jsstring list \<Rightarrow> jsstring" where
  "join sep [] = []"
| "join sep [x] = x"
| "join sep (x # y # ys) = x @ sep @ join sep (y # ys)"

text \<open>Numbers are IEEE doubles: a finite double is a rational, and there are three
  values that are not finite.\<close>

datatype jsnum = Finite rat | PosInfinity | NegInfinity | NaN

datatype json =
    JNull
  | JBool bool
  | JNum jsnum
  | JStr jsstring
  | JArr "json list"
  | JObj "(jsstring \<times> json) list"

text \<open>Functions of the platform that the routes call: \<open>JSON.parse\<close> (None where it
  throws), \<open>Date.parse\<close> (None where it gives \<open>NaN\<close>), \<open>String.prototype.replaceAll\<close> and
  the \<open>URL\<close> check of \<open>isValidHttpUrl\<close>.\<close>

record platform_fns =
  JSON_parse :: "jsstring \<Rightarrow> json option"
  Date_parse :: "jsstring \<Rightarrow> int option"
  replaceAll :: "jsstring \<Rightarrow> jsstring \<Rightarrow> jsstring \<Rightarrow> jsstring"
  isValidHttpUrl :: "jsstring \<Rightarrow> bool"

text \<open>Reading a property \<open>x.name\<close> of a value that is neither \<open>null\<close> nor
  \<open>undefined\<close>: an object gives its own property, every other value gives
  \<open>undefined\<close> (None) for the names the routes read.\<close>

fun get_prop :: "json \<Rightarrow> string \<Rightarrow> json option" where
  "get_prop (JObj kvs) name = map_of kvs (js name)"
| "get_prop _ name = None"

text \<open>\<open>x && typeof x === "object"\<close>: objects and arrays.\<close>

fun is_object_like :: "json \<Rightarrow> bool" where
  "is_object_like (JObj kvs) = True"
| "is_object_like (JArr xs) = True"
| "is_object_like _ = False"

section \<open>Plans and post keys\<close>

datatype source = Priority | Scheduled
datatype platform = Instagram | Facebook
datatype format = Post | Reel | Story

record plan_post =
  source :: source
  platform :: platform
  format :: format
  suggested_time_local :: jsstring
  caption :: jsstring
  hashtags :: "jsstring list"
  media_instructions :: jsstring
  approval_required :: bool
  approval_reason :: jsstring

record plan_day =
  date :: jsstring
  posts :: "plan_post list"

record plan =
  horizon_start_date :: jsstring
  horizon_end_date :: jsstring
  days :: "plan_day list"

fun platform_str :: "platform \<Rightarrow> jsstring" where
  "platform_str Instagram = js ''instagram''"
| "platform_str Facebook = js ''facebook''"

fun format_str :: "format \<Rightarrow> jsstring" where
  "format_str Post = js ''post''"
| "format_str Reel = js ''reel''"
| "format_str Story = js ''story''"

definition makePostKey :: "jsstring \<Rightarrow> plan_post \<Rightarrow> nat \<Rightarrow> jsstring" where
  "makePostKey dayDate post idx =
     join [bar]
       [dayDate,
        String_of_nat idx,
        platform_str (platform post),
        format_str (format post),
        suggested_time_local post,
        take 80 (caption post),
        take 80 (media_instructions post)]"

subsection \<open>Structural validation of a stored plan\<close>

text \<open>\<open>/^\d{4}-\d{2}-\d{2}$/\<close>\<close>

fun isYyyyMmDd :: "jsstring \<Rightarrow> bool" where
  "isYyyyMmDd [y1, y2, y3, y4, d1, m1, m2, d2, a1, a2] =
     (is_digit y1 \<and> is_digit y2 \<and> is_digit y3 \<and> is_digit y4 \<and> d1 = 0x2D
      \<and> is_digit m1 \<and> is_digit m2 \<and> d2 = 0x2D \<and> is_digit a1 \<and> is_digit a2)"
| "isYyyyMmDd _ = False"

text \<open>\<open>/^([01]\d|2[0-3]):([0-5]\d)$/\<close>\<close>

fun isHhMm :: "jsstring \<Rightarrow> bool" where
  "isHhMm [h1, h2, c, m1, m2] =
     ((((h1 = 0x30 \<or> h1 = 0x31) \<and> is_digit h2) \<or> (h1 = 0x32 \<and> 0x30 \<le> h2 \<and> h2 \<le> 0x33))
      \<and> c = 0x3A \<and> (0x30 \<le> m1 \<and> m1 \<le> 0x35) \<and> is_digit m2)"
| "isHhMm _ = False"

fun as_str :: "json option \<Rightarrow> jsstring option" where
  "as_str (Some (JStr s)) = Some s"
| "as_str _ = None"

fun as_bool :: "json option \<Rightarrow> bool option" where
  "as_bool (Some (JBool b)) = Some b"
| "as_bool _ = None"

fun as_arr :: "json option \<Rightarrow> json list option" where
  "as_arr (Some (JArr xs)) = Some xs"
| "as_arr _ = None"

fun all_strings :: "json list \<Rightarrow> jsstring list option" where
  "all_strings [] = Some []"
| "all_strings (JStr s # xs) = map_option (\<lambda>r. s # r) (all_strings xs)"
| "all_strings (_ # xs) = None"

definition parse_source :: "json option \<Rightarrow> source option" where
  "parse_source x =
     (case as_str x of
        None \<Rightarrow> None
      | Some s \<Rightarrow> if s = js ''priority'' then Some Priority
                  else if s = js ''scheduled'' then Some Scheduled else None)"

definition parse_platform :: "json option \<Rightarrow> platform option" where
  "parse_platform x =
     (case as_str x of
        None \<Rightarrow> None
      | Some s \<Rightarrow> if s = js ''instagram'' then Some Instagram
                  else if s = js ''facebook'' then Some Facebook else None)"

definition parse_format :: "json option \<Rightarrow> format option" where
  "parse_format x =
     (case as_str x of
        None \<Rightarrow> None
      | Some s \<Rightarrow> if s = js ''post'' then Some Post
                  else if s = js ''reel'' then Some Reel
                  else if s = js ''story'' then Some Story else None)"

text \<open>The checks of \<open>isValidPlan\<close> on one post, in the order of the source; the result
  is the post read at its type, None where the source returns false.\<close>

definition valid_post :: "json \<Rightarrow> plan_post option" where
  "valid_post p =
     (if \<not> is_object_like p then None else do {
        src \<leftarrow> parse_source (get_prop p ''source'');
        pl \<leftarrow> parse_platform (get_prop p ''platform'');
        fm \<leftarrow> parse_format (get_prop p ''format'');
        tm \<leftarrow> as_str (get_prop p ''suggested_time_local'');
        if \<not> isHhMm tm then None else do {
          cap \<leftarrow> as_str (get_prop p ''caption'');
          tags \<leftarrow> as_arr (get_prop p ''hashtags'');
          hs \<leftarrow> all_strings tags;
          med \<leftarrow> as_str (get_prop p ''media_instructions'');
          req \<leftarrow> as_bool (get_prop p ''approval_required'');
          rsn \<leftarrow> as_str (get_prop p ''approval_reason'');
          Some \<lparr>source = src, platform = pl, format = fm, suggested_time_local = tm,
                caption = cap, hashtags = hs, media_instructions = med,
                approval_required = req, approval_reason = rsn\<rparr>
        }
      })"

fun valid_posts :: "json list \<Rightarrow> plan_post list option" where
  "valid_posts [] = Some []"
| "valid_posts (p # ps) = do { q \<leftarrow> valid_post p; r \<leftarrow> valid_posts ps; Some (q # r) }"

definition valid_day :: "json \<Rightarrow> plan_day option" where
  "valid_day d =
     (if \<not> is_object_like d then None else do {
        dt \<leftarrow> as_str (get_prop d ''date'');
        if \<not> isYyyyMmDd dt then None else do {
          ps \<leftarrow> as_arr (get_prop d ''posts'');
          qs \<leftarrow> valid_posts ps;
          Some \<lparr>date = dt, posts = qs\<rparr>
        }
      })"

fun valid_days :: "json list \<Rightarrow> plan_day list option" where
  "valid_days [] = Some []"
| "valid_days (d # ds) = do { e \<leftarrow> valid_day d; r \<leftarrow> valid_days ds; Some (e # r) }"

definition valid_plan :: "json \<Rightarrow> plan option" where
  "valid_plan j =
     (if \<not> is_object_like j then None else do {
        s \<leftarrow> as_str (get_prop j ''horizon_start_date'');
        if \<not> isYyyyMmDd s then None else do {
          e \<leftarrow> as_str (get_prop j ''horizon_end_date'');
          if \<not> isYyyyMmDd e then None else do {
            ds \<leftarrow> as_arr (get_prop j ''days'');
            vs \<leftarrow> valid_days ds;
            Some \<lparr>horizon_start_date = s, horizon_end_date = e, days = vs\<rparr>
          }
        }
      })"

definition isValidPlan :: "json \<Rightarrow> bool" where
  "isValidPlan j = (valid_plan j \<noteq> None)"

section \<open>The store\<close>

text \<open>
  Each table is the list of its rows. Timestamps are milliseconds since the epoch; the
  store answers every query (its error answers, which every route turns into a 500
  response without touching a table, are left out).
\<close>

datatype approval_status = Pending | Approved | Rejected

record plan_row =
  p_user_id :: jsstring
  plan_json :: json
  model :: "jsstring option"
  generated_at :: int

record dispatch_row =
  d_user_id :: jsstring
  d_post_key :: jsstring
  ready :: bool
  d_updated_at :: int

record approval_row =
  a_user_id :: jsstring
  a_post_key :: jsstring
  status :: approval_status
  reject_reason :: "jsstring option"
  decided_at :: "int option"
  a_updated_at :: int

record db =
  plans :: "plan_row list"
  plan_dispatch :: "dispatch_row list"
  plan_post_approvals :: "approval_row list"

datatype 'a response = JsonError jsstring nat | Json 'a

section \<open>The dispatch-ready resolver\<close>

record ready_item =
  postKey :: jsstring
  item_date :: jsstring
  timeLocal :: jsstring
  item_platform :: platform
  item_format :: format
  item_source :: source
  item_caption :: jsstring
  item_hashtags :: jsstring
  mediaInstructions :: jsstring
  approvalRequired :: bool
  approvalReason :: jsstring
  dispatchUpdatedAtIso :: "int option"

record ready_meta =
  reason :: "string option"
  meta_model :: "jsstring option"
  planGeneratedAt :: "int option"
  dispatchReadyCount :: "nat option"
  returnedCount :: "nat option"

record ready_body =
  items :: "ready_item list"
  meta :: ready_meta

text \<open>\<open>.order("generated_at", { ascending: false }).limit(1)\<close> on the user's rows.\<close>

fun newest :: "plan_row list \<Rightarrow> plan_row option" where
  "newest [] = None"
| "newest (r # rs) =
     (case newest rs of
        None \<Rightarrow> Some r
      | Some r' \<Rightarrow> if generated_at r' \<le> generated_at r then Some r else Some r')"

definition latest_plan_row :: "jsstring \<Rightarrow> db \<Rightarrow> plan_row option" where
  "latest_plan_row userId s = newest (filter (\<lambda>r. p_user_id r = userId) (plans s))"

definition joinHashtags :: "jsstring list \<Rightarrow> jsstring" where
  "joinHashtags tags =
     join [0x20]
       (map (\<lambda>t. if take 1 t = [0x23] then t else 0x23 # dropWhile (\<lambda>c. c = 0x23) t)
          (filter (\<lambda>t. t \<noteq> []) (map trim tags)))"

text \<open>The two objects the route fills from the rows it read; a later row overwrites an
  earlier one, and a row with an empty key is skipped.\<close>

definition dispatchReadyKeys :: "dispatch_row list \<Rightarrow> jsstring list" where
  "dispatchReadyKeys rows = remdups (filter (\<lambda>k. k \<noteq> []) (map d_post_key rows))"

definition dispatchUpdatedAt :: "dispatch_row list \<Rightarrow> jsstring \<rightharpoonup> int" where
  "dispatchUpdatedAt rows =
     fold (\<lambda>row m. if d_post_key row = [] then m else m(d_post_key row \<mapsto> d_updated_at row))
       rows Map.empty"

definition approvals_of :: "approval_row list \<Rightarrow> jsstring \<rightharpoonup> approval_row" where
  "approvals_of rows =
     fold (\<lambda>row m. if a_post_key row = [] then m else m(a_post_key row \<mapsto> row)) rows Map.empty"

text \<open>The body of the \<open>forEach\<close> callback: None where it returns without pushing.\<close>

definition ready_post ::
  "jsstring list \<Rightarrow> (jsstring \<rightharpoonup> int) \<Rightarrow> (jsstring \<rightharpoonup> approval_row) \<Rightarrow>
   plan_day \<Rightarrow> nat \<times> plan_post \<Rightarrow> ready_item option" where
  "ready_post readyKeys updatedAt approvals day ip =
     (let idx = fst ip; p = snd ip; k = makePostKey (date day) p idx in
      if k \<notin> set readyKeys then None
      else if approval_required p \<and>
              (case approvals k of None \<Rightarrow> True | Some a \<Rightarrow> status a \<noteq> Approved) then None
      else Some \<lparr>postKey = k, item_date = date day, timeLocal = suggested_time_local p,
                 item_platform = platform p, item_format = format p, item_source = source p,
                 item_caption = caption p, item_hashtags = joinHashtags (hashtags p),
                 mediaInstructions = media_instructions p,
                 approvalRequired = approval_required p,
                 approvalReason = approval_reason p,
                 dispatchUpdatedAtIso = updatedAt k\<rparr>)"

definition ready_items ::
  "jsstring list \<Rightarrow> (jsstring \<rightharpoonup> int) \<Rightarrow> (jsstring \<rightharpoonup> approval_row) \<Rightarrow>
   plan \<Rightarrow> ready_item list" where
  "ready_items readyKeys updatedAt approvals pl =
     concat (map (\<lambda>day. List.map_filter (ready_post readyKeys updatedAt approvals day)
                          (enumerate 0 (posts day)))
               (days pl))"

text \<open>\<open>items.sort(cmp)\<close>: a stable insertion sort by the comparator. The comparator
  is \<open>localeCompare\<close> on \<open>date + " " + timeLocal\<close>; \<open>localeCompare\<close> belongs to the
  platform and is a parameter.\<close>

fun insert_by :: "('a \<Rightarrow> 'a \<Rightarrow> int) \<Rightarrow> 'a \<Rightarrow> 'a list \<Rightarrow> 'a list" where
  "insert_by cmp x [] = [x]"
| "insert_by cmp x (y # ys) = (if cmp x y < 0 then x # y # ys else y # insert_by cmp x ys)"

definition sort_by :: "('a \<Rightarrow> 'a \<Rightarrow> int) \<Rightarrow> 'a list \<Rightarrow> 'a list" where
  "sort_by cmp xs = foldl (\<lambda>acc x. insert_by cmp x acc) [] xs"

definition item_cmp :: "(jsstring \<Rightarrow> jsstring \<Rightarrow> int) \<Rightarrow> ready_item \<Rightarrow> ready_item \<Rightarrow> int" where
  "item_cmp localeCompare a b =
     localeCompare (item_date a @ [0x20] @ timeLocal a) (item_date b @ [0x20] @ timeLocal b)"

text \<open>The two queries of the route: the user's rows with \<open>ready = true\<close>, and all
  of the user's approval rows.\<close>

definition select_dispatch_ready :: "jsstring \<Rightarrow> db \<Rightarrow> dispatch_row list" where
  "select_dispatch_ready userId s =
     filter (\<lambda>r. d_user_id r = userId \<and> ready r) (plan_dispatch s)"

definition select_approvals :: "jsstring \<Rightarrow> db \<Rightarrow> approval_row list" where
  "select_approvals userId s = filter (\<lambda>r. a_user_id r = userId) (plan_post_approvals s)"

text \<open>\<open>GET /api/dispatch-ready\<close>; \<open>auth\<close> is the user id the session provider gave,
  if any.\<close>

definition dispatch_ready_GET ::
  "(jsstring \<Rightarrow> jsstring \<Rightarrow> int) \<Rightarrow> jsstring option \<Rightarrow> db \<Rightarrow> ready_body response" where
  "dispatch_ready_GET localeCompare auth s =
     (case auth of
        None \<Rightarrow> JsonError (js ''Unauthorized'') 401
      | Some userId \<Rightarrow>
        if userId = [] then JsonError (js ''Unauthorized'') 401 else
        (case latest_plan_row userId s of
           None \<Rightarrow>
             Json \<lparr>items = [],
                   meta = \<lparr>reason = Some ''no_plan_found'', meta_model = None,
                           planGeneratedAt = None, dispatchReadyCount = None,
                           returnedCount = None\<rparr>\<rparr>
         | Some planRow \<Rightarrow>
           (case valid_plan (plan_json planRow) of
              None \<Rightarrow> JsonError (js ''Stored plan_json is invalid. Regenerate plan.'') 500
            | Some pl \<Rightarrow>
              (let dispatchRows = select_dispatch_ready userId s;
                   readyKeys = dispatchReadyKeys dispatchRows
               in if length readyKeys = 0 then
                    Json \<lparr>items = [],
                          meta = \<lparr>reason = None, meta_model = model planRow,
                                  planGeneratedAt = Some (generated_at planRow),
                                  dispatchReadyCount = Some 0, returnedCount = None\<rparr>\<rparr>
                  else
                    (let approvalRows = select_approvals userId s;
                         its = sort_by (item_cmp localeCompare)
                                 (ready_items readyKeys (dispatchUpdatedAt dispatchRows)
                                    (approvals_of approvalRows) pl)
                     in Json \<lparr>items = its,
                              meta = \<lparr>reason = None, meta_model = model planRow,
                                      planGeneratedAt = Some (generated_at planRow),
                                      dispatchReadyCount = Some (length readyKeys),
                                      returnedCount = Some (length its)\<rparr>\<rparr>)))))"

section \<open>Reading a decimal rendering back\<close>

text \<open>The number a string of decimal digits denotes; used to show that
  \<open>String_of_nat\<close> is injective.\<close>

definition digits_value :: "jsstring \<Rightarrow> nat" where
  "digits_value cs = foldl (\<lambda>a c. 10 * a + (unat c - 48)) 0 cs"

section \<open>Setting approval and dispatch state\<close>

definition isStatus :: "json option \<Rightarrow> approval_status option" where
  "isStatus x =
     (case as_str x of
        None \<Rightarrow> None
      | Some s \<Rightarrow> if s = js ''pending'' then Some Pending
                  else if s = js ''approved'' then Some Approved
                  else if s = js ''rejected'' then Some Rejected else None)"

text \<open>\<open>safeIsoOrNull\<close>.\<close>

definition safeIsoOrNull :: "platform_fns \<Rightarrow> json option \<Rightarrow> int option" where
  "safeIsoOrNull pf x =
     (case as_str x of
        None \<Rightarrow> None
      | Some s \<Rightarrow> let v = trim s in if v = [] then None else Date_parse pf v)"

text \<open>\<open>upsert(row, { onConflict: "user_id,post_key" })\<close> on the approvals table: the row
  of that user and key is replaced, or the row is added.\<close>

definition upsert_approval :: "approval_row \<Rightarrow> approval_row list \<Rightarrow> approval_row list" where
  "upsert_approval row rows =
     (if \<exists>r\<in>set rows. a_user_id r = a_user_id row \<and> a_post_key r = a_post_key row
      then map (\<lambda>r. if a_user_id r = a_user_id row \<and> a_post_key r = a_post_key row
                       then row else r) rows
      else rows @ [row])"

text \<open>The row that \<open>POST /api/plan-approvals\<close> hands to the upsert.\<close>

definition approval_record ::
  "jsstring \<Rightarrow> jsstring \<Rightarrow> approval_status \<Rightarrow> jsstring option \<Rightarrow> int option \<Rightarrow> int
   \<Rightarrow> approval_row" where
  "approval_record userId pk st rejectReason decidedAtIso now =
     \<lparr>a_user_id = userId, a_post_key = pk, status = st,
      reject_reason = (if st = Rejected then rejectReason else None),
      decided_at = (if st = Pending then None
                    else (case decidedAtIso of None \<Rightarrow> Some now | Some t \<Rightarrow> Some t)),
      a_updated_at = now\<rparr>"

text \<open>\<open>POST /api/plan-approvals\<close>; the body is None where \<open>req.json()\<close> throws.\<close>

definition approvals_POST ::
  "platform_fns \<Rightarrow> int \<Rightarrow> jsstring option \<Rightarrow> json option \<Rightarrow> db
   \<Rightarrow> unit response \<times> db" where
  "approvals_POST pf now auth body s =
     (case auth of
        None \<Rightarrow> (JsonError (js ''Unauthorized'') 401, s)
      | Some userId \<Rightarrow>
        if userId = [] then (JsonError (js ''Unauthorized'') 401, s) else
        (case body of
           None \<Rightarrow> (JsonError (js ''Body must be valid JSON.'') 400, s)
         | Some b \<Rightarrow>
           if \<not> is_object_like b then (JsonError (js ''Invalid JSON body.'') 400, s) else
           (case as_str (get_prop b ''postKey'') of
              None \<Rightarrow> (JsonError (js ''postKey is required.'') 400, s)
            | Some rawKey \<Rightarrow>
              if length (normalizeSpaces rawKey) = 0
              then (JsonError (js ''postKey is required.'') 400, s) else
              (case isStatus (get_prop b ''status'') of
                 None \<Rightarrow>
                   (JsonError (js ''status must be 'pending', 'approved', or 'rejected'.'') 400, s)
               | Some st \<Rightarrow>
                 (let pk = normalizeSpaces rawKey;
                      rejectReason = map_option normalizeSpaces (as_str (get_prop b ''rejectReason''));
                      decidedAtIso = safeIsoOrNull pf (get_prop b ''decidedAtIso'');
                      row = approval_record userId pk st rejectReason decidedAtIso now
                  in (Json (), s\<lparr>plan_post_approvals :=
                                    upsert_approval row (plan_post_approvals s)\<rparr>))))))"

text \<open>The dispatch upsert writes \<open>user_id\<close>, \<open>post_key\<close> and \<open>ready\<close> only: a new row
  takes the column default for \<open>updated_at\<close>, a row that exists keeps the one it has.\<close>

definition upsert_dispatch ::
  "int \<Rightarrow> jsstring \<Rightarrow> jsstring \<Rightarrow> bool \<Rightarrow> dispatch_row list \<Rightarrow> dispatch_row list" where
  "upsert_dispatch now userId pk rdy rows =
     (if \<exists>r\<in>set rows. d_user_id r = userId \<and> d_post_key r = pk
      then map (\<lambda>r. if d_user_id r = userId \<and> d_post_key r = pk
                       then r\<lparr>ready := rdy\<rparr> else r) rows
      else rows @ [\<lparr>d_user_id = userId, d_post_key = pk, ready = rdy,
                     d_updated_at = now\<rparr>])"

text \<open>\<open>POST /api/dispatch\<close>.\<close>

definition dispatch_POST ::
  "int \<Rightarrow> jsstring option \<Rightarrow> json option \<Rightarrow> db \<Rightarrow> unit response \<times> db" where
  "dispatch_POST now auth body s =
     (case auth of
        None \<Rightarrow> (JsonError (js ''Unauthorized'') 401, s)
      | Some userId \<Rightarrow>
        if userId = [] then (JsonError (js ''Unauthorized'') 401, s) else
        (case body of
           None \<Rightarrow> (JsonError (js ''Body must be valid JSON.'') 400, s)
         | Some b \<Rightarrow>
           if \<not> is_object_like b then (JsonError (js ''Invalid JSON body.'') 400, s) else
           (case as_str (get_prop b ''postKey'') of
              None \<Rightarrow> (JsonError (js ''postKey is required.'') 400, s)
            | Some rawKey \<Rightarrow>
              if length (normalizeSpaces rawKey) = 0
              then (JsonError (js ''postKey is required.'') 400, s) else
              (case as_bool (get_prop b ''ready'') of
                 None \<Rightarrow> (JsonError (js ''ready must be boolean.'') 400, s)
               | Some rdy \<Rightarrow>
                 (let pk = normalizeSpaces rawKey
                  in (Json (), s\<lparr>plan_dispatch :=
                                    upsert_dispatch now userId pk rdy (plan_dispatch s)\<rparr>))))))"

text \<open>What \<open>normalizeSpaces\<close> changes in a string: whitespace at either end, two
  whitespace characters in a row, or a whitespace character that is not a space.\<close>

fun has_ws_pair :: "jsstring \<Rightarrow> bool" where
  "has_ws_pair (a # b # cs) = ((is_ws a \<and> is_ws b) \<or> has_ws_pair (b # cs))"
| "has_ws_pair _ = False"

definition ws_defect :: "jsstring \<Rightarrow> bool" where
  "ws_defect k =
     ((k \<noteq> [] \<and> (is_ws (hd k) \<or> is_ws (last k))) \<or> has_ws_pair k
      \<or> list_ex (\<lambda>c. is_ws c \<and> c \<noteq> 0x20) k)"

section \<open>Review requests\<close>

datatype channel = Email | Sms
datatype job_status = Queued | Sent | Failed

record booking_row =
  b_user_id :: jsstring
  b_slug :: jsstring

text \<open>\<open>send_delay_minutes\<close> is kept as the value the store returns, since the webhook
  tests its type.\<close>

record settings_row =
  rs_user_id :: jsstring
  review_url :: jsstring
  send_delay_minutes :: json
  rs_channel :: jsstring
  template :: jsstring
  rs_updated_at :: int

record event_row =
  e_id :: nat
  e_user_id :: jsstring
  external_event_id :: "jsstring option"
  customer_name :: "jsstring option"
  customer_email :: "jsstring option"
  customer_phone :: "jsstring option"
  appointment_end :: "int option"
  raw :: json

record job_row =
  j_id :: nat
  j_user_id :: jsstring
  appointment_event_id :: nat
  j_channel :: channel
  to_email :: "jsstring option"
  to_phone :: "jsstring option"
  message :: jsstring
  scheduled_for :: int
  j_status :: job_status
  sent_at :: "int option"
  j_error :: "jsstring option"

record review_db =
  booking_settings :: "booking_row list"
  review_settings :: "settings_row list"
  appointment_events :: "event_row list"
  review_jobs :: "job_row list"

fun as_num :: "json option \<Rightarrow> jsnum option" where
  "as_num (Some (JNum n)) = Some n"
| "as_num _ = None"

text \<open>\<open>typeof x === "number" && Number.isFinite(x)
  ? Math.max(0, Math.min(7 * 24 * 60, Math.floor(x))) : 120\<close>, as both the settings route
  and the webhook compute it.\<close>

definition delayMinutes :: "json option \<Rightarrow> int" where
  "delayMinutes x =
     (case as_num x of
        Some (Finite q) \<Rightarrow> max 0 (min (7 * 24 * 60) \<lfloor>q\<rfloor>)
      | _ \<Rightarrow> 120)"

definition upsert_settings :: "settings_row \<Rightarrow> settings_row list \<Rightarrow> settings_row list" where
  "upsert_settings row rows =
     (if \<exists>r\<in>set rows. rs_user_id r = rs_user_id row
      then map (\<lambda>r. if rs_user_id r = rs_user_id row then row else r) rows
      else rows @ [row])"

text \<open>The row that \<open>POST /api/review-settings\<close> hands to the upsert.\<close>

definition settings_record ::
  "jsstring \<Rightarrow> jsstring \<Rightarrow> int \<Rightarrow> jsstring \<Rightarrow> jsstring \<Rightarrow> int \<Rightarrow> settings_row" where
  "settings_record userId reviewUrl sendDelayMinutes chan tmpl now =
     \<lparr>rs_user_id = userId, review_url = reviewUrl,
      send_delay_minutes = JNum (Finite (of_int sendDelayMinutes)),
      rs_channel = chan, template = tmpl, rs_updated_at = now\<rparr>"

text \<open>\<open>POST /api/review-settings\<close>.\<close>

definition review_settings_POST ::
  "platform_fns \<Rightarrow> int \<Rightarrow> jsstring option \<Rightarrow> json option \<Rightarrow> review_db
   \<Rightarrow> unit response \<times> review_db" where
  "review_settings_POST pf now auth body s =
     (case auth of
        None \<Rightarrow> (JsonError (js ''Unauthorized'') 401, s)
      | Some userId \<Rightarrow>
        if userId = [] then (JsonError (js ''Unauthorized'') 401, s) else
        (case body of
           None \<Rightarrow> (JsonError (js ''Body must be valid JSON.'') 400, s)
         | Some b \<Rightarrow>
           if \<not> is_object_like b then (JsonError (js ''Invalid JSON body.'') 400, s) else
           (let reviewUrl = (case as_str (get_prop b ''reviewUrl'') of
                               Some u \<Rightarrow> trim u | None \<Rightarrow> [])
            in if reviewUrl = [] \<or> \<not> isValidHttpUrl pf reviewUrl
               then (JsonError (js ''reviewUrl must be a valid http(s) link.'') 400, s)
               else
                 (let sendDelayMinutes = delayMinutes (get_prop b ''sendDelayMinutes'');
                      chan = (if as_str (get_prop b ''channel'') = Some (js ''sms'')
                              then js ''sms'' else js ''email'');
                      templateRaw = (case as_str (get_prop b ''template'') of
                                       Some t \<Rightarrow> t | None \<Rightarrow> []);
                      tmpl = normalizeSpaces templateRaw
                  in if length tmpl < 10
                     then (JsonError
                             (js ''template is too short. Please write a short message (10+ characters).'')
                             400, s)
                     else
                       (Json (),
                        s\<lparr>review_settings :=
                            upsert_settings
                              (settings_record userId reviewUrl sendDelayMinutes chan tmpl now)
                              (review_settings s)\<rparr>)))))"

subsection \<open>The appointment webhook\<close>

text \<open>\<open>maybeSingle()\<close>: no row, the row, or the store's error for more than one.\<close>

datatype 'a single = NoRow | OneRow 'a | ManyRows

fun maybeSingle :: "'a list \<Rightarrow> 'a single" where
  "maybeSingle [] = NoRow"
| "maybeSingle [x] = OneRow x"
| "maybeSingle _ = ManyRows"

definition many_rows_message :: jsstring where
  "many_rows_message = js ''JSON object requested, multiple (or no) rows returned''"

definition asString :: "json option \<Rightarrow> jsstring option" where
  "asString x =
     (case as_str x of
        None \<Rightarrow> None
      | Some s \<Rightarrow> if length (trim s) > 0 then Some (trim s) else None)"

definition asDateIsoOrNull :: "platform_fns \<Rightarrow> json option \<Rightarrow> int option" where
  "asDateIsoOrNull pf x = (case asString x of None \<Rightarrow> None | Some s \<Rightarrow> Date_parse pf s)"

text \<open>\<open>a ?? b ?? ... ?? null\<close> over the alternative names of a field.\<close>

fun first_some :: "'a option list \<Rightarrow> 'a option" where
  "first_some [] = None"
| "first_some (None # xs) = first_some xs"
| "first_some (Some v # xs) = Some v"

definition substituteTemplate :: "platform_fns \<Rightarrow> jsstring \<Rightarrow> jsstring \<Rightarrow> jsstring" where
  "substituteTemplate pf tmpl reviewUrl = replaceAll pf tmpl (js ''{review_url}'') reviewUrl"

text \<open>The store gives an inserted row an id no other row of the table has.\<close>

definition fresh_id :: "nat list \<Rightarrow> nat" where
  "fresh_id ids = Suc (fold max ids 0)"

datatype webhook_ok =
    Deduped
  | NotQueued string nat
  | QueuedFor int channel nat

text \<open>The fields the webhook reads from the payload, each under its alternative names.\<close>

definition extract_event_id :: "json \<Rightarrow> jsstring option" where
  "extract_event_id rawObj =
     first_some [asString (get_prop rawObj ''external_event_id''),
                 asString (get_prop rawObj ''eventId''),
                 asString (get_prop rawObj ''id''),
                 asString (get_prop rawObj ''bookingId'')]"

definition extract_name :: "json \<Rightarrow> jsstring option" where
  "extract_name rawObj =
     first_some [asString (get_prop rawObj ''customer_name''),
                 asString (get_prop rawObj ''customerName''),
                 asString (get_prop rawObj ''name'')]"

definition extract_email :: "json \<Rightarrow> jsstring option" where
  "extract_email rawObj =
     first_some [asString (get_prop rawObj ''customer_email''),
                 asString (get_prop rawObj ''customerEmail''),
                 asString (get_prop rawObj ''email'')]"

definition extract_phone :: "json \<Rightarrow> jsstring option" where
  "extract_phone rawObj =
     first_some [asString (get_prop rawObj ''customer_phone''),
                 asString (get_prop rawObj ''customerPhone''),
                 asString (get_prop rawObj ''phone'')]"

definition extract_end :: "platform_fns \<Rightarrow> json \<Rightarrow> int option" where
  "extract_end pf rawObj =
     first_some [asDateIsoOrNull pf (get_prop rawObj ''appointment_end''),
                 asDateIsoOrNull pf (get_prop rawObj ''appointmentEnd''),
                 asDateIsoOrNull pf (get_prop rawObj ''end''),
                 asDateIsoOrNull pf (get_prop rawObj ''endTime'')]"

text \<open>Step 4 of the webhook: the stored event of that user with that external id.\<close>

definition find_existing :: "jsstring \<Rightarrow> jsstring option \<Rightarrow> review_db \<Rightarrow> event_row single" where
  "find_existing userId externalEventId s =
     (case externalEventId of
        None \<Rightarrow> NoRow
      | Some eid \<Rightarrow>
          maybeSingle
            (filter (\<lambda>r. e_user_id r = userId \<and> external_event_id r = Some eid)
               (appointment_events s)))"

text \<open>Steps 5 and 6: insert the event, then build the review job and insert it unless
  the recipient of the selected channel is missing.\<close>

definition insert_event_and_job ::
  "platform_fns \<Rightarrow> int \<Rightarrow> jsstring \<Rightarrow> settings_row \<Rightarrow> json \<Rightarrow> review_db
   \<Rightarrow> webhook_ok response \<times> review_db" where
  "insert_event_and_job pf now userId settings rawObj s =
     (let customerEmail = extract_email rawObj;
          customerPhone = extract_phone rawObj;
          insertedId = fresh_id (map e_id (appointment_events s));
          s1 = s\<lparr>appointment_events := appointment_events s @
                  [\<lparr>e_id = insertedId, e_user_id = userId,
                    external_event_id = extract_event_id rawObj,
                    customer_name = extract_name rawObj,
                    customer_email = customerEmail,
                    customer_phone = customerPhone,
                    appointment_end = extract_end pf rawObj,
                    raw = rawObj\<rparr>]\<rparr>;
          delay = delayMinutes (Some (send_delay_minutes settings));
          scheduledFor = now + delay * 60 * 1000;
          msg = substituteTemplate pf (template settings) (review_url settings);
          chan = (if rs_channel settings = js ''sms'' then Sms else Email);
          recipient = (if chan = Email then customerEmail else customerPhone)
      in case recipient of
           None \<Rightarrow>
             (Json (NotQueued
                      (if chan = Email then ''missing_customer_email''
                       else ''missing_customer_phone'')
                      insertedId), s1)
         | Some r \<Rightarrow>
             (Json (QueuedFor scheduledFor chan insertedId),
              s1\<lparr>review_jobs := review_jobs s1 @
                   [\<lparr>j_id = fresh_id (map j_id (review_jobs s1)),
                     j_user_id = userId,
                     appointment_event_id = insertedId,
                     j_channel = chan,
                     to_email = (if chan = Email then Some r else None),
                     to_phone = (if chan = Email then None else Some r),
                     message = msg,
                     scheduled_for = scheduledFor,
                     j_status = Queued,
                     sent_at = None,
                     j_error = None\<rparr>]\<rparr>))"

text \<open>Steps 3 to 6, for the user and the settings that steps 1 and 2 found. Reading a
  property of \<open>null\<close> throws, which the handler turns into a 500 response.\<close>

definition ingest ::
  "platform_fns \<Rightarrow> int \<Rightarrow> jsstring \<Rightarrow> settings_row \<Rightarrow> json \<Rightarrow> review_db
   \<Rightarrow> webhook_ok response \<times> review_db" where
  "ingest pf now userId settings rawObj s =
     (if rawObj = JNull
      then (JsonError (js ''Cannot read properties of null (reading 'external_event_id')'') 500, s)
      else
        (case find_existing userId (extract_event_id rawObj) s of
           ManyRows \<Rightarrow> (JsonError many_rows_message 500, s)
         | OneRow ev \<Rightarrow> (Json Deduped, s)
         | NoRow \<Rightarrow> insert_event_and_job pf now userId settings rawObj s))"

text \<open>\<open>POST /api/webhooks/appointments/[slug]\<close>. \<open>tokenErr\<close> is what
  \<open>requireWebhookToken\<close> returned, \<open>rawText\<close> the request body.\<close>

definition webhook_POST ::
  "platform_fns \<Rightarrow> int \<Rightarrow> jsstring option \<Rightarrow> jsstring \<Rightarrow> jsstring \<Rightarrow> review_db
   \<Rightarrow> webhook_ok response \<times> review_db" where
  "webhook_POST pf now tokenErr slug rawText s =
     (case tokenErr of
        Some e \<Rightarrow> (JsonError e (if e = js ''Unauthorized.'' then 401 else 400), s)
      | None \<Rightarrow>
        if slug = [] then (JsonError (js ''Missing slug in URL.'') 400, s) else
        if rawText = [] \<or> length (trim rawText) = 0
        then (JsonError (js ''Body is empty (expected JSON).'') 400, s) else
        (case JSON_parse pf rawText of
           None \<Rightarrow>
             (JsonError (js ''Body must be valid JSON. First 200 chars: '' @ take 200 rawText) 400, s)
         | Some rawObj \<Rightarrow>
           (case maybeSingle (filter (\<lambda>r. b_slug r = slug) (booking_settings s)) of
              ManyRows \<Rightarrow> (JsonError many_rows_message 500, s)
            | NoRow \<Rightarrow> (JsonError (js ''Unknown booking slug.'') 404, s)
            | OneRow booking \<Rightarrow>
              (case maybeSingle (filter (\<lambda>r. rs_user_id r = b_user_id booking)
                                   (review_settings s)) of
                 ManyRows \<Rightarrow> (JsonError many_rows_message 500, s)
               | NoRow \<Rightarrow>
                   (JsonError (js ''Review settings not configured for this salon.'') 409, s)
               | OneRow settings \<Rightarrow> ingest pf now (b_user_id booking) settings rawObj s))))"

text \<open>A sequence of webhook calls for one slug, each with its time and body.\<close>

fun webhook_calls :: "platform_fns \<Rightarrow> jsstring \<Rightarrow> (int \<times> jsstring) list \<Rightarrow> review_db \<Rightarrow> review_db" where
  "webhook_calls pf slug [] s = s"
| "webhook_calls pf slug (c # cs) s =
     webhook_calls pf slug cs (snd (webhook_POST pf (fst c) None slug (snd c) s))"

text \<open>The call with body \<open>rawText\<close> for \<open>slug\<close> passes steps 1 and 2 in store \<open>s\<close>: the
  body parses to \<open>rawObj\<close>, which is not \<open>null\<close>, the slug is the only booking page of
  user \<open>userId\<close>, and that user has review settings.\<close>

definition hook_accepts ::
  "platform_fns \<Rightarrow> jsstring \<Rightarrow> jsstring \<Rightarrow> review_db \<Rightarrow> jsstring \<Rightarrow> json \<Rightarrow> bool" where
  "hook_accepts pf slug rawText s userId rawObj =
     (slug \<noteq> [] \<and> trim rawText \<noteq> [] \<and> JSON_parse pf rawText = Some rawObj \<and> rawObj \<noteq> JNull
      \<and> (case maybeSingle (filter (\<lambda>r. b_slug r = slug) (booking_settings s)) of
            OneRow booking \<Rightarrow> b_user_id booking = userId | _ \<Rightarrow> False)
      \<and> (case maybeSingle (filter (\<lambda>r. rs_user_id r = userId) (review_settings s)) of
            OneRow settings \<Rightarrow> True | _ \<Rightarrow> False))"

text \<open>The recipient of the channel the settings select is missing from the payload.\<close>

definition recipient_missing :: "settings_row \<Rightarrow> json \<Rightarrow> bool" where
  "recipient_missing st obj =
     (if rs_channel st = js ''sms'' then extract_phone obj = None else extract_email obj = None)"

text \<open>How many events the store holds for a user and an external id.\<close>

definition count_events :: "jsstring \<Rightarrow> jsstring \<Rightarrow> review_db \<Rightarrow> nat" where
  "count_events userId eid s =
     length (filter (\<lambda>r. e_user_id r = userId \<and> external_event_id r = Some eid)
               (appointment_events s))"

subsection \<open>Due review jobs\<close>

text \<open>\<open>fetchDueJobs\<close>: the query \<open>.eq("status", "queued").lte("scheduled_for", now)
  .order("scheduled_for", { ascending: true }).limit(limit)\<close>.\<close>

definition fetchDueJobs :: "nat \<Rightarrow> int \<Rightarrow> review_db \<Rightarrow> job_row list" where
  "fetchDueJobs limit now s =
     take limit
       (sort_key scheduled_for
          (filter (\<lambda>j. j_status j = Queued \<and> scheduled_for j \<le> now) (review_jobs s)))"

text \<open>\<open>GET\<close> and \<open>POST /api/review-jobs/due\<close>; the second marks every job it fetched
  as sent.\<close>

definition review_jobs_GET ::
  "int \<Rightarrow> jsstring option \<Rightarrow> review_db \<Rightarrow> (job_row list \<times> nat) response" where
  "review_jobs_GET now tokenErr s =
     (case tokenErr of
        Some e \<Rightarrow> JsonError e (if e = js ''Unauthorized.'' then 401 else 400)
      | None \<Rightarrow> (let jobs = fetchDueJobs 25 now s in Json (jobs, length jobs)))"

definition mark_sent :: "int \<Rightarrow> nat \<Rightarrow> job_row list \<Rightarrow> job_row list" where
  "mark_sent now jid rows =
     map (\<lambda>j. if j_id j = jid then j\<lparr>j_status := Sent, sent_at := Some now, j_error := None\<rparr>
               else j) rows"

definition review_jobs_POST ::
  "int \<Rightarrow> jsstring option \<Rightarrow> review_db \<Rightarrow> (nat \<times> job_row list) response \<times> review_db" where
  "review_jobs_POST now tokenErr s =
     (case tokenErr of
        Some e \<Rightarrow> (JsonError e (if e = js ''Unauthorized.'' then 401 else 400), s)
      | None \<Rightarrow>
        (let jobs = fetchDueJobs 25 now s in
         if length jobs = 0 then (Json (0, []), s)
         else (Json (length jobs, jobs),
               s\<lparr>review_jobs := fold (\<lambda>job rows. mark_sent now (j_id job) rows) jobs
                                    (review_jobs s)\<rparr>)))"

section \<open>The plan generator\<close>

text \<open>\<open>isObject\<close>: an object that is not an array.\<close>

fun isObject :: "json \<Rightarrow> bool" where
  "isObject (JObj kvs) = True"
| "isObject _ = False"

text \<open>The check \<open>extractPlanFromResponsesPayload\<close> makes on a candidate (its comment:
  validate basic shape, lightweight).\<close>

definition looksLikePlan :: "json \<Rightarrow> bool" where
  "looksLikePlan x =
     (isObject x \<and> as_str (get_prop x ''horizon_start_date'') \<noteq> None
      \<and> as_str (get_prop x ''horizon_end_date'') \<noteq> None
      \<and> as_arr (get_prop x ''days'') \<noteq> None)"

text \<open>\<open>try { obj = JSON.parse(v); if (looksLikePlan(obj)) return ... } catch {}\<close> for a
  field that holds a string; nothing for a field that does not.\<close>

definition parse_candidate :: "platform_fns \<Rightarrow> json option \<Rightarrow> string \<Rightarrow> (json \<times> string) option" where
  "parse_candidate pf v hint =
     (case as_str v of
        None \<Rightarrow> None
      | Some t \<Rightarrow>
          (case JSON_parse pf t of
             None \<Rightarrow> None
           | Some obj \<Rightarrow> if looksLikePlan obj then Some (obj, hint) else None))"

text \<open>One element \<open>c\<close> of a \<open>content\<close> array: \<open>c.json\<close> already parsed, then \<open>c.text\<close>,
  then \<open>c.value\<close>, \<open>c.output_text\<close>, \<open>c.content\<close>.\<close>

definition content_candidate :: "platform_fns \<Rightarrow> json \<Rightarrow> (json \<times> string) option" where
  "content_candidate pf c =
     first_some
       [(case c of
           JObj kvs \<Rightarrow>
             (case map_of kvs (js ''json'') of
                None \<Rightarrow> None
              | Some maybeJson \<Rightarrow>
                  if looksLikePlan maybeJson then Some (maybeJson, ''from output.content.json'')
                  else None)
         | _ \<Rightarrow> None),
        parse_candidate pf (get_prop c ''text'') ''from output.content.text'',
        parse_candidate pf (get_prop c ''value'') ''from output.content.value'',
        parse_candidate pf (get_prop c ''output_text'') ''from output.content.output_text'',
        parse_candidate pf (get_prop c ''content'') ''from output.content.content'']"

definition output_candidate :: "platform_fns \<Rightarrow> json \<Rightarrow> (json \<times> string) option" where
  "output_candidate pf payload =
     (case as_arr (get_prop payload ''output'') of
        None \<Rightarrow> None
      | Some output \<Rightarrow>
          first_some
            (map (\<lambda>item. case as_arr (get_prop item ''content'') of
                            None \<Rightarrow> None
                          | Some content \<Rightarrow> first_some (map (content_candidate pf) content))
               output))"

text \<open>\<open>extractPlanFromResponsesPayload\<close>: the plan and the hint, None where the source
  returns \<open>plan: null\<close>.\<close>

definition extractPlanFromResponsesPayload :: "platform_fns \<Rightarrow> json \<Rightarrow> (json \<times> string) option" where
  "extractPlanFromResponsesPayload pf payload =
     first_some
       [parse_candidate pf (get_prop payload ''output_text'') ''from payload.output_text'',
        output_candidate pf payload,
        (if looksLikePlan payload then Some (payload, ''from payload root'') else None)]"

text \<open>What \<open>if (x)\<close> tests.\<close>

fun truthy :: "json \<Rightarrow> bool" where
  "truthy JNull = False"
| "truthy (JBool b) = b"
| "truthy (JNum (Finite q)) = (q \<noteq> 0)"
| "truthy (JNum NaN) = False"
| "truthy (JNum _) = True"
| "truthy (JStr s) = (s \<noteq> [])"
| "truthy _ = True"

definition requireEnv :: "string \<Rightarrow> jsstring option \<Rightarrow> jsstring + jsstring" where
  "requireEnv name v =
     (case v of
        None \<Rightarrow> Inl (js ''Missing environment variable: '' @ js name)
      | Some t \<Rightarrow> if length (trim t) = 0
                  then Inl (js ''Missing environment variable: '' @ js name)
                  else Inr (trim t))"

text \<open>What \<open>fetch\<close> gave: it threw, or a response with \<open>ok\<close>, \<open>status\<close> and body text.\<close>

datatype upstream = FetchThrows jsstring | Upstream bool nat jsstring

record plan_meta =
  pm_model :: jsstring
  generatedAt :: int
  extractedFrom :: string

record plan_body =
  body_plan :: json
  body_meta :: plan_meta

text \<open>The message of a response that is not \<open>ok\<close>: the upstream's own
  \<open>error.message\<close> when it has one.\<close>

definition upstream_message :: "json \<Rightarrow> nat \<Rightarrow> jsstring" where
  "upstream_message parsed st =
     (case (if truthy parsed then get_prop parsed ''error'' else None) of
        None \<Rightarrow> js ''OpenAI request failed (HTTP '' @ String_of_nat st @ js '').''
      | Some e \<Rightarrow>
          (case (if truthy e then as_str (get_prop e ''message'') else None) of
             None \<Rightarrow> js ''OpenAI request failed (HTTP '' @ String_of_nat st @ js '').''
           | Some m \<Rightarrow> if m = [] then js ''OpenAI request failed (HTTP '' @ String_of_nat st @ js '').''
                        else m))"

text \<open>\<open>GET /api/plan\<close>. The two environment variables and what \<open>fetch\<close> gave are
  inputs.\<close>

definition plan_GET ::
  "platform_fns \<Rightarrow> int \<Rightarrow> jsstring option \<Rightarrow> jsstring option \<Rightarrow> jsstring option \<Rightarrow> upstream
   \<Rightarrow> plan_body response" where
  "plan_GET pf now auth env_key env_model up =
     (case auth of
        None \<Rightarrow> JsonError (js ''Unauthorized'') 401
      | Some userId \<Rightarrow>
        if userId = [] then JsonError (js ''Unauthorized'') 401 else
        (case requireEnv ''OPENAI_API_KEY'' env_key of
           Inl msg \<Rightarrow> JsonError msg 500
         | Inr apiKey \<Rightarrow>
           (case requireEnv ''OPENAI_MODEL'' env_model of
              Inl msg \<Rightarrow> JsonError msg 500
            | Inr mdl \<Rightarrow>
              (case up of
                 FetchThrows msg \<Rightarrow> JsonError msg 502
               | Upstream ok st rawText \<Rightarrow>
                 (let parsed = (case JSON_parse pf rawText of None \<Rightarrow> JNull | Some j \<Rightarrow> j)
                  in if \<not> ok then JsonError (upstream_message parsed st) 502
                     else if \<not> truthy parsed
                     then JsonError (js ''OpenAI returned non-JSON response. Check server logs.'') 502
                     else
                       (case extractPlanFromResponsesPayload pf parsed of
                          None \<Rightarrow>
                            JsonError
                              (js ''OpenAI returned an unexpected format. Check server logs for the raw response.'')
                              502
                        | Some (pl, debugHint) \<Rightarrow>
                            Json \<lparr>body_plan = pl,
                                  body_meta = \<lparr>pm_model = mdl, generatedAt = now,
                                                extractedFrom = debugHint\<rparr>\<rparr>))))))"

subsection \<open>The candidate shapes, as the specification words them\<close>

text \<open>
  The specification describes the extraction as an ordered chain: a single serialized
  JSON field; then a list of output entries, each possibly holding pre-parsed structured
  content, serialized JSON text, or alternate named fields; the first shape that parses
  and passes the check is the plan. The definitions below list, in that order, every
  candidate a payload offers (a serialized field counts only if it parses), with the
  hint that names its place; \<open>first_accepted\<close> takes the first that passes
  \<open>looksLikePlan\<close>. They are compared with \<open>extractPlanFromResponsesPayload\<close> below.
\<close>

definition parsed_field :: "platform_fns \<Rightarrow> json option \<Rightarrow> string \<Rightarrow> (json \<times> string) list" where
  "parsed_field pf v hint =
     (case as_str v of
        None \<Rightarrow> []
      | Some t \<Rightarrow> (case JSON_parse pf t of None \<Rightarrow> [] | Some obj \<Rightarrow> [(obj, hint)]))"

definition content_candidates :: "platform_fns \<Rightarrow> json \<Rightarrow> (json \<times> string) list" where
  "content_candidates pf c =
     (case c of
        JObj kvs \<Rightarrow>
          (case map_of kvs (js ''json'') of
             None \<Rightarrow> []
           | Some maybeJson \<Rightarrow> [(maybeJson, ''from output.content.json'')])
      | _ \<Rightarrow> [])
     @ parsed_field pf (get_prop c ''text'') ''from output.content.text''
     @ parsed_field pf (get_prop c ''value'') ''from output.content.value''
     @ parsed_field pf (get_prop c ''output_text'') ''from output.content.output_text''
     @ parsed_field pf (get_prop c ''content'') ''from output.content.content''"

definition output_candidates :: "platform_fns \<Rightarrow> json \<Rightarrow> (json \<times> string) list" where
  "output_candidates pf payload =
     (case as_arr (get_prop payload ''output'') of
        None \<Rightarrow> []
      | Some entries \<Rightarrow>
          concat
            (map (\<lambda>item. case as_arr (get_prop item ''content'') of
                            None \<Rightarrow> []
                          | Some content \<Rightarrow> concat (map (content_candidates pf) content))
               entries))"

definition candidates :: "platform_fns \<Rightarrow> json \<Rightarrow> (json \<times> string) list" where
  "candidates pf payload =
     parsed_field pf (get_prop payload ''output_text'') ''from payload.output_text''
     @ output_candidates pf payload
     @ [(payload, ''from payload root'')]"

definition first_accepted :: "platform_fns \<Rightarrow> json \<Rightarrow> (json \<times> string) option" where
  "first_accepted pf payload = List.find (\<lambda>c. looksLikePlan (fst c)) (candidates pf payload)"

section \<open>A stored plan with one promotional post\<close>

definition ex_post_json :: json where
  "ex_post_json = JObj
     [(js ''source'', JStr (js ''scheduled'')),
      (js ''platform'', JStr (js ''instagram'')),
      (js ''format'', JStr (js ''post'')),
      (js ''suggested_time_local'', JStr (js ''09:00'')),
      (js ''caption'', JStr (js ''Sale'')),
      (js ''hashtags'', JArr [JStr (js ''hair'')]),
      (js ''media_instructions'', JStr (js ''Photo'')),
      (js ''approval_required'', JBool True),
      (js ''approval_reason'', JStr (js ''promo''))]"

definition ex_plan_json :: json where
  "ex_plan_json = JObj
     [(js ''horizon_start_date'', JStr (js ''2025-01-01'')),
      (js ''horizon_end_date'', JStr (js ''2025-01-07'')),
      (js ''days'', JArr [JObj [(js ''date'', JStr (js ''2025-01-01'')),
                               (js ''posts'', JArr [ex_post_json])]])]"

definition ex_key :: jsstring where
  "ex_key = js ''2025-01-01|0|instagram|post|09:00|Sale|Photo''"

definition ex_db :: db where
  "ex_db = \<lparr>plans = [\<lparr>p_user_id = js ''u1'', plan_json = ex_plan_json, model = None,
                       generated_at = 5\<rparr>],
            plan_dispatch = [\<lparr>d_user_id = js ''u1'', d_post_key = ex_key, ready = True,
                               d_updated_at = 7\<rparr>],
            plan_post_approvals = [\<lparr>a_user_id = js ''u1'', a_post_key = ex_key,
                                     status = Approved, reject_reason = None,
                                     decided_at = Some 6, a_updated_at = 6\<rparr>]\<rparr>"

definition ex_item :: ready_item where
  "ex_item = \<lparr>postKey = ex_key, item_date = js ''2025-01-01'', timeLocal = js ''09:00'',
              item_platform = Instagram, item_format = Post, item_source = Scheduled,
              item_caption = js ''Sale'', item_hashtags = js ''#hair'',
              mediaInstructions = js ''Photo'', approvalRequired = True,
              approvalReason = js ''promo'', dispatchUpdatedAtIso = Some 7\<rparr>"

definition ex_body :: ready_body where
  "ex_body = \<lparr>items = [ex_item],
              meta = \<lparr>reason = None, meta_model = None, planGeneratedAt = Some 5,
                      dispatchReadyCount = Some 1, returnedCount = Some 1\<rparr>\<rparr>"

definition ex_db_unmarked :: db where
  "ex_db_unmarked =
     ex_db\<lparr>plan_dispatch := [\<lparr>d_user_id = js ''u1'', d_post_key = ex_key, ready = False,
                                 d_updated_at = 7\<rparr>]\<rparr>"

definition ex_body_unmarked :: ready_body where
  "ex_body_unmarked =
     \<lparr>items = [],
      meta = \<lparr>reason = None, meta_model = None, planGeneratedAt = Some 5,
              dispatchReadyCount = Some 0, returnedCount = None\<rparr>\<rparr>"

section \<open>Posts for the key derivation\<close>

definition ex_p1 :: plan_post where
  "ex_p1 = \<lparr>source = Scheduled, platform = Instagram, format = Post,
            suggested_time_local = js ''09:00'', caption = js ''a|b'', hashtags = [],
            media_instructions = js ''c'', approval_required = False, approval_reason = []\<rparr>"

definition ex_p2 :: plan_post where
  "ex_p2 = ex_p1\<lparr>caption := js ''a'', media_instructions := js ''b|c''\<rparr>"

text \<open>Three captions of 81 characters: the second differs from the first in the 81st
  character only, the third in the 79th only.\<close>

definition ex_long1 :: plan_post where
  "ex_long1 = ex_p1\<lparr>caption := replicate 78 0x61 @ js ''bcx''\<rparr>"

definition ex_long2 :: plan_post where
  "ex_long2 = ex_p1\<lparr>caption := replicate 78 0x61 @ js ''bcy''\<rparr>"

definition ex_near :: plan_post where
  "ex_near = ex_p1\<lparr>caption := replicate 78 0x61 @ js ''zcx''\<rparr>"

section \<open>Withdrawing an approval\<close>

definition ex_pending_body :: json where
  "ex_pending_body =
     JObj [(js ''postKey'', JStr ex_key), (js ''status'', JStr (js ''pending'')),
           (js ''rejectReason'', JStr (js ''too late'')),
           (js ''decidedAtIso'', JStr (js ''2025-01-02T10:00:00Z''))]"

definition ex_db_pending :: db where
  "ex_db_pending =
     ex_db\<lparr>plan_post_approvals :=
              [\<lparr>a_user_id = js ''u1'', a_post_key = ex_key, status = Pending,
                reject_reason = None, decided_at = None, a_updated_at = 9\<rparr>]\<rparr>"

section \<open>A post whose caption has two spaces in a row\<close>

definition ex_ws_post :: plan_post where
  "ex_ws_post = ex_p1\<lparr>caption := js ''Big  sale''\<rparr>"

definition ex_ws_key :: jsstring where
  "ex_ws_key = makePostKey (js ''2025-01-01'') ex_ws_post 0"

definition ex_ws_body :: json where
  "ex_ws_body =
     JObj [(js ''postKey'', JStr ex_ws_key), (js ''ready'', JBool True),
           (js ''status'', JStr (js ''approved''))]"

text \<open>A store whose only plan has that post, which needs no approval, on its only day;
  the same store after the post was marked ready through \<open>POST /api/dispatch\<close>; and the
  resolver's answer then.\<close>

definition ex_ws_plan_json :: json where
  "ex_ws_plan_json = JObj
     [(js ''horizon_start_date'', JStr (js ''2025-01-01'')),
      (js ''horizon_end_date'', JStr (js ''2025-01-07'')),
      (js ''days'',
       JArr [JObj [(js ''date'', JStr (js ''2025-01-01'')),
                   (js ''posts'',
                    JArr [JObj
                      [(js ''source'', JStr (js ''scheduled'')),
                       (js ''platform'', JStr (js ''instagram'')),
                       (js ''format'', JStr (js ''post'')),
                       (js ''suggested_time_local'', JStr (js ''09:00'')),
                       (js ''caption'', JStr (js ''Big  sale'')),
                       (js ''hashtags'', JArr []),
                       (js ''media_instructions'', JStr (js ''c'')),
                       (js ''approval_required'', JBool False),
                       (js ''approval_reason'', JStr [])]])]])]"

definition ex_ws_plan :: plan where
  "ex_ws_plan =
     \<lparr>horizon_start_date = js ''2025-01-01'', horizon_end_date = js ''2025-01-07'',
      days = [\<lparr>date = js ''2025-01-01'', posts = [ex_ws_post]\<rparr>]\<rparr>"

definition ex_ws_db :: db where
  "ex_ws_db = \<lparr>plans = [\<lparr>p_user_id = js ''u1'', plan_json = ex_ws_plan_json, model = None,
                          generated_at = 5\<rparr>],
               plan_dispatch = [], plan_post_approvals = []\<rparr>"

definition ex_ws_db_marked :: db where
  "ex_ws_db_marked =
     ex_ws_db\<lparr>plan_dispatch :=
                [\<lparr>d_user_id = js ''u1'',
                  d_post_key = js ''2025-01-01|0|instagram|post|09:00|Big sale|c'',
                  ready = True, d_updated_at = 9\<rparr>]\<rparr>"

definition ex_ws_answer :: ready_body where
  "ex_ws_answer =
     \<lparr>items = [],
      meta = \<lparr>reason = None, meta_model = None, planGeneratedAt = Some 5,
              dispatchReadyCount = Some 1, returnedCount = Some 0\<rparr>\<rparr>"

section \<open>A salon with review settings\<close>

definition ex_hook_text :: jsstring where
  "ex_hook_text = js ''{\"id\":\"evt-1\",\"name\":\"Ann\"}''"

definition ex_hook_json :: json where
  "ex_hook_json = JObj [(js ''id'', JStr (js ''evt-1'')), (js ''name'', JStr (js ''Ann''))]"

definition ex_retry_text :: jsstring where
  "ex_retry_text = js ''{\"id\":\"evt-1\",\"name\":\"Ann\",\"email\":\"ann@example.org\"}''"

definition ex_retry_json :: json where
  "ex_retry_json =
     JObj [(js ''id'', JStr (js ''evt-1'')), (js ''name'', JStr (js ''Ann'')),
           (js ''email'', JStr (js ''ann@example.org''))]"

definition ex_anon_text :: jsstring where
  "ex_anon_text = js ''{\"email\":\"bob@example.org\"}''"

definition ex_anon_json :: json where
  "ex_anon_json = JObj [(js ''email'', JStr (js ''bob@example.org''))]"

definition ex_pf :: platform_fns where
  "ex_pf =
     \<lparr>JSON_parse = map_of [(ex_hook_text, ex_hook_json), (ex_retry_text, ex_retry_json),
                           (ex_anon_text, ex_anon_json)],
      Date_parse = (\<lambda>t. None),
      replaceAll = (\<lambda>t p r. t),
      isValidHttpUrl = (\<lambda>u. take 8 u = js ''https://'')\<rparr>"

definition ex_settings_body :: json where
  "ex_settings_body =
     JObj [(js ''reviewUrl'', JStr (js ''https://g.page/r/salon'')),
           (js ''sendDelayMinutes'', JNum (Finite (- 5))),
           (js ''channel'', JStr (js ''email'')),
           (js ''template'', JStr (js ''Thanks for visiting! {review_url}''))]"

definition ex_rdb0 :: review_db where
  "ex_rdb0 = \<lparr>booking_settings = [\<lparr>b_user_id = js ''u1'', b_slug = js ''salon''\<rparr>],
              review_settings = [], appointment_events = [], review_jobs = []\<rparr>"

definition ex_rdb1 :: review_db where
  "ex_rdb1 =
     ex_rdb0\<lparr>review_settings :=
               [settings_record (js ''u1'') (js ''https://g.page/r/salon'') 0 (js ''email'')
                  (js ''Thanks for visiting! {review_url}'') 9]\<rparr>"

section \<open>Three review jobs\<close>

text \<open>With \<open>now = 3600000\<close>: one job ten minutes ago and queued, one in five minutes and
  queued, one an hour ago and already sent.\<close>

definition ex_job :: "nat \<Rightarrow> int \<Rightarrow> job_status \<Rightarrow> job_row" where
  "ex_job n t st =
     \<lparr>j_id = n, j_user_id = js ''u1'', appointment_event_id = n, j_channel = Email,
      to_email = Some (js ''ann@example.org''), to_phone = None, message = js ''Thanks'',
      scheduled_for = t, j_status = st, sent_at = None, j_error = None\<rparr>"

definition ex_jdb :: review_db where
  "ex_jdb = ex_rdb1\<lparr>review_jobs :=
                      [ex_job 1 3900000 Queued, ex_job 2 3000000 Queued, ex_job 3 0 Sent]\<rparr>"

section \<open>The store after one webhook call\<close>

text \<open>After the call with \<open>ex_hook_text\<close> (no email), and after the call with
  \<open>ex_retry_text\<close> (with email), each made on \<open>ex_rdb1\<close> at time 100.\<close>

definition ex_rdb_s :: review_db where
  "ex_rdb_s =
     ex_rdb1\<lparr>appointment_events :=
               [\<lparr>e_id = 1, e_user_id = js ''u1'', external_event_id = Some (js ''evt-1''),
                 customer_name = Some (js ''Ann''), customer_email = None,
                 customer_phone = None, appointment_end = None, raw = ex_hook_json\<rparr>]\<rparr>"

definition ex_rdb_q :: review_db where
  "ex_rdb_q =
     ex_rdb1\<lparr>appointment_events :=
               [\<lparr>e_id = 1, e_user_id = js ''u1'', external_event_id = Some (js ''evt-1''),
                 customer_name = Some (js ''Ann''),
                 customer_email = Some (js ''ann@example.org''),
                 customer_phone = None, appointment_end = None, raw = ex_retry_json\<rparr>],
             review_jobs :=
               [\<lparr>j_id = 1, j_user_id = js ''u1'', appointment_event_id = 1, j_channel = Email,
                 to_email = Some (js ''ann@example.org''), to_phone = None,
                 message = js ''Thanks for visiting! {review_url}'', scheduled_for = 100,
                 j_status = Queued, sent_at = None, j_error = None\<rparr>]\<rparr>"

section \<open>An upstream answer with a time that is not HH:MM\<close>

definition ex_loose_post :: json where
  "ex_loose_post = JObj
     [(js ''source'', JStr (js ''scheduled'')),
      (js ''platform'', JStr (js ''instagram'')),
      (js ''format'', JStr (js ''post'')),
      (js ''suggested_time_local'', JStr (js ''9am'')),
      (js ''caption'', JStr (js ''Sale'')),
      (js ''hashtags'', JArr [JStr (js ''hair'')]),
      (js ''media_instructions'', JStr (js ''Photo'')),
      (js ''approval_required'', JBool True),
      (js ''approval_reason'', JStr (js ''promo''))]"

definition ex_loose_plan :: json where
  "ex_loose_plan = JObj
     [(js ''horizon_start_date'', JStr (js ''2025-01-01'')),
      (js ''horizon_end_date'', JStr (js ''2025-01-07'')),
      (js ''days'', JArr [JObj [(js ''date'', JStr (js ''2025-01-01'')),
                               (js ''posts'', JArr [ex_loose_post])]])]"

text \<open>The body text of the upstream response and the JSON text in its \<open>output_text\<close>
  field stand for themselves; \<open>ex_gen_pf\<close> parses the first to a payload whose
  \<open>output_text\<close> is the second, and the second to \<open>ex_loose_plan\<close>. A third body,
  \<open>NESTED\<close>, parses to a payload whose \<open>output_text\<close> parses but is no plan and whose
  output entry holds the valid plan \<open>ex_plan_json\<close> already parsed.\<close>

definition ex_nested_payload :: json where
  "ex_nested_payload =
     JObj [(js ''output_text'', JStr (js ''OTHER'')),
           (js ''output'',
            JArr [JObj [(js ''content'',
                         JArr [JObj [(js ''type'', JStr (js ''output_json'')),
                                     (js ''json'', ex_plan_json)]])]])]"

definition ex_gen_pf :: platform_fns where
  "ex_gen_pf =
     \<lparr>JSON_parse = map_of [(js ''BODY'', JObj [(js ''output_text'', JStr (js ''PLAN''))]),
                           (js ''PLAN'', ex_loose_plan),
                           (js ''OTHER'', JObj [(js ''id'', JStr (js ''resp_1''))]),
                           (js ''NESTED'', ex_nested_payload)],
      Date_parse = (\<lambda>t. None),
      replaceAll = (\<lambda>t p r. t),
      isValidHttpUrl = (\<lambda>u. True)\<rparr>"

definition ex_gen_body :: plan_body where
  "ex_gen_body =
     \<lparr>body_plan = ex_loose_plan,
      body_meta = \<lparr>pm_model = js ''m'', generatedAt = 5,
                    extractedFrom = ''from payload.output_text''\<rparr>\<rparr>"

definition ex_nested_body :: plan_body where
  "ex_nested_body =
     \<lparr>body_plan = ex_plan_json,
      body_meta = \<lparr>pm_model = js ''m'', generatedAt = 5,
                    extractedFrom = ''from output.content.json''\<rparr>\<rparr>"

section \<open>Properties of the resolver\<close>

lemma set_insert_by: "set (insert_by cmp x ys) = insert x (set ys)"
  by (induction ys) auto

lemma set_foldl_insert_by:
  "set (foldl (\<lambda>acc x. insert_by cmp x acc) acc xs) = set acc \<union> set xs"
  by (induction xs arbitrary: acc) (auto simp: set_insert_by)

lemma set_sort_by: "set (sort_by cmp xs) = set xs"
  by (simp add: sort_by_def set_foldl_insert_by)

lemma fold_approvals_Some:
  "fold (\<lambda>row m. if a_post_key row = [] then m else m(a_post_key row \<mapsto> row)) rows m k = Some a
   \<Longrightarrow> (a \<in> set rows \<and> a_post_key a = k) \<or> m k = Some a"
  by (induction rows arbitrary: m) (fastforce split: if_splits)+

lemma approvals_of_Some:
  "approvals_of rows k = Some a \<Longrightarrow> a \<in> set rows \<and> a_post_key a = k"
  using fold_approvals_Some [of rows Map.empty k a] by (simp add: approvals_of_def)

lemma dispatchReadyKeys_mem:
  "k \<in> set (dispatchReadyKeys rows) \<Longrightarrow> \<exists>r\<in>set rows. d_post_key r = k"
  by (auto simp: dispatchReadyKeys_def)

lemma ready_post_Some:
  assumes "ready_post ks up ap day (idx, p) = Some it"
  shows "postKey it = makePostKey (date day) p idx"
    and "postKey it \<in> set ks"
    and "approvalRequired it = approval_required p"
    and "approval_required p \<Longrightarrow> \<exists>a. ap (postKey it) = Some a \<and> status a = Approved"
  using assms by (auto simp: ready_post_def Let_def split: if_splits option.splits)

lemma set_map_filter_iff: "y \<in> set (List.map_filter f xs) \<longleftrightarrow> (\<exists>x\<in>set xs. f x = Some y)"
  by (induction xs) (auto split: option.splits)

lemma ready_items_mem:
  assumes "it \<in> set (ready_items ks up ap pl)"
  shows "\<exists>day\<in>set (days pl). \<exists>idx<length (posts day).
           ready_post ks up ap day (idx, posts day ! idx) = Some it"
proof -
  from assms obtain day ip where d: "day \<in> set (days pl)"
    and ip: "ip \<in> set (enumerate 0 (posts day))"
    and r: "ready_post ks up ap day ip = Some it"
    by (auto simp: ready_items_def set_map_filter_iff)
  obtain idx p where [simp]: "ip = (idx, p)" by (cases ip)
  from ip have "idx < length (posts day)" "p = posts day ! idx"
    by (auto simp: in_set_enumerate_eq)
  with d r show ?thesis by auto
qed

lemma GET_Json_items:
  assumes "dispatch_ready_GET cmp auth s = Json body"
  shows "items body = [] \<or>
         (\<exists>userId planRow pl. auth = Some userId \<and> latest_plan_row userId s = Some planRow
            \<and> valid_plan (plan_json planRow) = Some pl
            \<and> set (items body) =
                set (ready_items (dispatchReadyKeys (select_dispatch_ready userId s))
                       (dispatchUpdatedAt (select_dispatch_ready userId s))
                       (approvals_of (select_approvals userId s)) pl))"
  using assms
  by (auto simp: dispatch_ready_GET_def Let_def set_sort_by split: option.splits if_splits)

lemma GET_item:
  assumes "dispatch_ready_GET cmp auth s = Json body" and "it \<in> set (items body)"
  shows "\<exists>userId planRow pl day idx.
           auth = Some userId \<and> latest_plan_row userId s = Some planRow
           \<and> valid_plan (plan_json planRow) = Some pl
           \<and> day \<in> set (days pl) \<and> idx < length (posts day)
           \<and> ready_post (dispatchReadyKeys (select_dispatch_ready userId s))
                (dispatchUpdatedAt (select_dispatch_ready userId s))
                (approvals_of (select_approvals userId s))
                day (idx, posts day ! idx) = Some it"
proof -
  from GET_Json_items [OF assms(1)] assms(2) obtain userId planRow pl where
    h: "auth = Some userId" "latest_plan_row userId s = Some planRow"
       "valid_plan (plan_json planRow) = Some pl"
    and "it \<in> set (ready_items (dispatchReadyKeys (select_dispatch_ready userId s))
                       (dispatchUpdatedAt (select_dispatch_ready userId s))
                       (approvals_of (select_approvals userId s)) pl)"
    by auto
  from ready_items_mem [OF this(4)] h show ?thesis by blast
qed

lemma ex_GET:
  "dispatch_ready_GET (\<lambda>a b. 0) (Some (js ''u1'')) ex_db = Json ex_body"
  by code_simp

lemma ex_GET_unmarked:
  "dispatch_ready_GET (\<lambda>a b. 0) (Some (js ''u1'')) ex_db_unmarked = Json ex_body_unmarked"
  by code_simp

text \<open>
  C1. Whatever the plans, approvals and dispatch flags in the store, an item of the
  resolver's answer whose \<open>approvalRequired\<close> is true has, in the approvals table, a row
  of the same user for the item's post key with status approved; and the item is a post
  of the user's latest plan that requires approval, under the key \<open>makePostKey\<close> derives
  for it. (A derived key contains \<open>|\<close>, so looking it up in the route's objects never
  lands on a name they inherit.)
\<close>

theorem resolver_approval_gate:
  assumes "dispatch_ready_GET cmp auth s = Json body"
    and "it \<in> set (items body)" and "approvalRequired it"
  shows "(\<exists>r\<in>set (plan_post_approvals s).
            Some (a_user_id r) = auth \<and> a_post_key r = postKey it \<and> status r = Approved)
         \<and> (\<exists>userId planRow pl day idx.
               auth = Some userId \<and> latest_plan_row userId s = Some planRow
               \<and> valid_plan (plan_json planRow) = Some pl
               \<and> day \<in> set (days pl) \<and> idx < length (posts day)
               \<and> approval_required (posts day ! idx)
               \<and> postKey it = makePostKey (date day) (posts day ! idx) idx)"
proof -
  from GET_item [OF assms(1,2)] obtain userId planRow pl day idx where
    a: "auth = Some userId" and
    pl: "latest_plan_row userId s = Some planRow" "valid_plan (plan_json planRow) = Some pl"
      "day \<in> set (days pl)" "idx < length (posts day)" and
    r: "ready_post (dispatchReadyKeys (select_dispatch_ready userId s))
          (dispatchUpdatedAt (select_dispatch_ready userId s))
          (approvals_of (select_approvals userId s))
          day (idx, posts day ! idx) = Some it"
    by blast
  from ready_post_Some(3) [OF r] assms(3) have q: "approval_required (posts day ! idx)" by simp
  from ready_post_Some(4) [OF r q] obtain row where
    "approvals_of (select_approvals userId s) (postKey it) = Some row"
    and st: "status row = Approved" by blast
  from approvals_of_Some [OF this(1)] have "row \<in> set (plan_post_approvals s)"
    "a_user_id row = userId" "a_post_key row = postKey it"
    by (auto simp: select_approvals_def)
  with a st have "\<exists>r\<in>set (plan_post_approvals s).
            Some (a_user_id r) = auth \<and> a_post_key r = postKey it \<and> status r = Approved"
    by auto
  with a pl q ready_post_Some(1) [OF r] show ?thesis by blast
qed

theorem resolver_approval_gate_witness:
  "dispatch_ready_GET (\<lambda>a b. 0) (Some (js ''u1'')) ex_db = Json ex_body
   \<and> ex_item \<in> set (items ex_body) \<and> approvalRequired ex_item
   \<and> (\<exists>r\<in>set (plan_post_approvals ex_db).
         Some (a_user_id r) = Some (js ''u1'') \<and> a_post_key r = postKey ex_item
         \<and> status r = Approved)"
proof -
  have i: "ex_item \<in> set (items ex_body)" by (simp add: ex_body_def)
  have q: "approvalRequired ex_item" by (simp add: ex_item_def)
  from resolver_approval_gate [OF ex_GET i q] ex_GET i q show ?thesis by blast
qed

text \<open>
  C2. Whatever the plans, approvals and dispatch flags in the store: when the dispatch
  table holds no row of the user for a key with \<open>ready\<close> true (the key is absent, or
  present with \<open>ready = false\<close>), no item of the resolver's answer has that key, whatever
  the approvals say; and when no row of the user has \<open>ready\<close> true the answer has no
  items at all.
\<close>

theorem resolver_dispatch_gate:
  assumes "dispatch_ready_GET cmp auth s = Json body"
  shows "(\<forall>k. (\<forall>r\<in>set (plan_dispatch s). Some (d_user_id r) = auth \<and> d_post_key r = k
                   \<longrightarrow> \<not> ready r)
              \<longrightarrow> (\<forall>it\<in>set (items body). postKey it \<noteq> k))
         \<and> ((\<forall>r\<in>set (plan_dispatch s). Some (d_user_id r) = auth \<longrightarrow> \<not> ready r)
              \<longrightarrow> items body = [])"
proof -
  have row: "\<exists>r\<in>set (plan_dispatch s).
               Some (d_user_id r) = auth \<and> d_post_key r = postKey it \<and> ready r"
    if "it \<in> set (items body)" for it
  proof -
    from GET_item [OF assms that] obtain userId planRow pl day idx where
      a: "auth = Some userId" and
      r: "ready_post (dispatchReadyKeys (select_dispatch_ready userId s))
            (dispatchUpdatedAt (select_dispatch_ready userId s))
            (approvals_of (select_approvals userId s))
            day (idx, posts day ! idx) = Some it"
      by blast
    from ready_post_Some(2) [OF r] dispatchReadyKeys_mem
    obtain row where "row \<in> set (select_dispatch_ready userId s)"
      "d_post_key row = postKey it"
      by blast
    with a show ?thesis by (auto simp: select_dispatch_ready_def)
  qed
  have "items body = []"
    if no: "\<forall>r\<in>set (plan_dispatch s). Some (d_user_id r) = auth \<longrightarrow> \<not> ready r"
  proof (cases "items body")
    case Nil
    then show ?thesis .
  next
    case (Cons it its)
    then have "it \<in> set (items body)" by simp
    from row [OF this] no show ?thesis by blast
  qed
  with row show ?thesis by blast
qed

theorem resolver_dispatch_gate_witness:
  "dispatch_ready_GET (\<lambda>a b. 0) (Some (js ''u1'')) ex_db_unmarked = Json ex_body_unmarked
   \<and> \<not> (\<exists>r\<in>set (plan_dispatch ex_db_unmarked). d_user_id r = js ''u1'' \<and> ready r)
   \<and> \<not> (\<exists>it\<in>set (items ex_body_unmarked). postKey it = ex_key)
   \<and> items ex_body_unmarked = []
   \<and> dispatch_ready_GET (\<lambda>a b. 0) (Some (js ''u1'')) ex_db = Json ex_body
   \<and> \<not> (\<exists>r\<in>set (plan_dispatch ex_db). d_post_key r = js ''other'')
   \<and> \<not> (\<exists>it\<in>set (items ex_body). postKey it = js ''other'')"
proof -
  have h: "\<not> (\<exists>r\<in>set (plan_dispatch ex_db_unmarked). d_user_id r = js ''u1'' \<and> ready r)"
    by (simp add: ex_db_unmarked_def ex_db_def)
  have o: "\<not> (\<exists>r\<in>set (plan_dispatch ex_db). d_post_key r = js ''other'')"
    by (simp add: ex_db_def ex_key_def js_def)
  from resolver_dispatch_gate [OF ex_GET_unmarked] resolver_dispatch_gate [OF ex_GET]
    h o ex_GET ex_GET_unmarked
  show ?thesis by blast
qed

section \<open>Properties of the key derivation\<close>

lemma unat_digit: "k < 10 \<Longrightarrow> unat (of_nat (48 + k) :: 16 word) = 48 + k"
  by (subst unat_of_nat) simp

lemma digits_value_String_of_nat: "digits_value (String_of_nat n) = n"
proof (induction n rule: String_of_nat.induct)
  case (1 n)
  show ?case
  proof (cases "n < 10")
    case True
    then show ?thesis
      by (subst String_of_nat.simps) (simp add: digits_value_def unat_digit del: of_nat_add)
  next
    case False
    with 1 have ih: "digits_value (String_of_nat (n div 10)) = n div 10" by simp
    have "unat (of_nat (48 + n mod 10) :: 16 word) = 48 + n mod 10"
      by (rule unat_digit) simp
    with ih False show ?thesis
      by (subst String_of_nat.simps) (simp add: digits_value_def del: of_nat_add)
  qed
qed

lemma String_of_nat_inj: "String_of_nat m = String_of_nat n \<Longrightarrow> m = n"
  using digits_value_String_of_nat [of m] digits_value_String_of_nat [of n] by simp

lemma digit_not_bar: "k < 10 \<Longrightarrow> (of_nat (48 + k) :: 16 word) \<noteq> bar"
proof
  assume k: "k < 10" and e: "(of_nat (48 + k) :: 16 word) = bar"
  from unat_digit [OF k] e have "unat bar = 48 + k" by simp
  with k show False by (simp add: bar_def)
qed

lemma bar_notin_String_of_nat: "bar \<notin> set (String_of_nat n)"
proof (induction n rule: String_of_nat.induct)
  case (1 n)
  show ?case
  proof (cases "n < 10")
    case True
    then show ?thesis by (subst String_of_nat.simps) (simp add: digit_not_bar [symmetric] del: of_nat_add)
  next
    case False
    have "(of_nat (48 + n mod 10) :: 16 word) \<noteq> bar" by (rule digit_not_bar) simp
    with 1 False show ?thesis by (subst String_of_nat.simps) (auto simp del: of_nat_add)
  qed
qed

lemma bar_notin_platform: "bar \<notin> set (platform_str p)"
  by (cases p) (simp_all add: js_def bar_def)

lemma bar_notin_format: "bar \<notin> set (format_str f)"
  by (cases f) (simp_all add: js_def bar_def)

lemma platform_str_inj: "platform_str p = platform_str q \<Longrightarrow> p = q"
  by (cases p; cases q) (simp_all add: js_def)

lemma format_str_inj: "format_str p = format_str q \<Longrightarrow> p = q"
  by (cases p; cases q) (simp_all add: js_def)

lemma split_at_bar:
  assumes "bar \<notin> set a" and "bar \<notin> set b" and "a @ bar # r = b @ bar # r'"
  shows "a = b \<and> r = r'"
  using assms
proof (induction a arbitrary: b)
  case Nil
  then show ?case by (cases b) auto
next
  case (Cons x a)
  then show ?case by (cases b) auto
qed

lemma makePostKey_unfold:
  "makePostKey d p i =
     d @ bar # String_of_nat i @ bar # platform_str (platform p) @ bar # format_str (format p)
       @ bar # suggested_time_local p @ bar # take 80 (caption p) @ bar # take 80 (media_instructions p)"
  by (simp add: makePostKey_def)

text \<open>
  C3, as stated, fails: the fields are joined by \<open>|\<close> without escaping, so two posts on
  the same date and index whose captions differ within the first 80 characters can
  have the same key.
\<close>

theorem makePostKey_collision:
  "take 80 (caption ex_p1) \<noteq> take 80 (caption ex_p2)
   \<and> makePostKey (js ''2025-01-01'') ex_p1 0 = makePostKey (js ''2025-01-01'') ex_p2 0"
  by code_simp

text \<open>
  C3, amended. \<open>makePostKey\<close> is a function of the date, the index, the platform, the
  format, the suggested time and the first 80 characters of the caption and of the media
  instructions: two calls that agree on these give the same key (so a change of the
  caption or of the media instructions beyond character 80 does not change the key).
  Conversely, when the dates, the suggested times and the first 80 characters of the
  captions contain no \<open>|\<close>, equal keys force all seven components to be equal: the key
  differs whenever one of them differs.
\<close>

theorem makePostKey_eq:
  "(d1 = d2 \<and> i1 = i2 \<and> platform p1 = platform p2 \<and> format p1 = format p2
     \<and> suggested_time_local p1 = suggested_time_local p2
     \<and> take 80 (caption p1) = take 80 (caption p2)
     \<and> take 80 (media_instructions p1) = take 80 (media_instructions p2)
    \<longrightarrow> makePostKey d1 p1 i1 = makePostKey d2 p2 i2)
   \<and> (bar \<notin> set d1 \<and> bar \<notin> set d2
       \<and> bar \<notin> set (suggested_time_local p1) \<and> bar \<notin> set (suggested_time_local p2)
       \<and> bar \<notin> set (take 80 (caption p1)) \<and> bar \<notin> set (take 80 (caption p2))
       \<and> makePostKey d1 p1 i1 = makePostKey d2 p2 i2
      \<longrightarrow> d1 = d2 \<and> i1 = i2 \<and> platform p1 = platform p2 \<and> format p1 = format p2
          \<and> suggested_time_local p1 = suggested_time_local p2
          \<and> take 80 (caption p1) = take 80 (caption p2)
          \<and> take 80 (media_instructions p1) = take 80 (media_instructions p2))"
proof (rule conjI; rule impI)
  assume "d1 = d2 \<and> i1 = i2 \<and> platform p1 = platform p2 \<and> format p1 = format p2
     \<and> suggested_time_local p1 = suggested_time_local p2
     \<and> take 80 (caption p1) = take 80 (caption p2)
     \<and> take 80 (media_instructions p1) = take 80 (media_instructions p2)"
  then show "makePostKey d1 p1 i1 = makePostKey d2 p2 i2"
    by (simp add: makePostKey_unfold)
next
  assume h: "bar \<notin> set d1 \<and> bar \<notin> set d2
       \<and> bar \<notin> set (suggested_time_local p1) \<and> bar \<notin> set (suggested_time_local p2)
       \<and> bar \<notin> set (take 80 (caption p1)) \<and> bar \<notin> set (take 80 (caption p2))
       \<and> makePostKey d1 p1 i1 = makePostKey d2 p2 i2"
  then have "makePostKey d1 p1 i1 = makePostKey d2 p2 i2" by blast
  then have k: "d1 @ bar # String_of_nat i1 @ bar # platform_str (platform p1) @ bar # format_str (format p1)
       @ bar # suggested_time_local p1 @ bar # take 80 (caption p1) @ bar # take 80 (media_instructions p1)
     = d2 @ bar # String_of_nat i2 @ bar # platform_str (platform p2) @ bar # format_str (format p2)
       @ bar # suggested_time_local p2 @ bar # take 80 (caption p2) @ bar # take 80 (media_instructions p2)"
    unfolding makePostKey_unfold .
  from h have d: "bar \<notin> set d1" "bar \<notin> set d2" by simp_all
  from split_at_bar [OF d k] have e1: "d1 = d2" and
    k1: "String_of_nat i1 @ bar # platform_str (platform p1) @ bar # format_str (format p1)
       @ bar # suggested_time_local p1 @ bar # take 80 (caption p1) @ bar # take 80 (media_instructions p1)
     = String_of_nat i2 @ bar # platform_str (platform p2) @ bar # format_str (format p2)
       @ bar # suggested_time_local p2 @ bar # take 80 (caption p2) @ bar # take 80 (media_instructions p2)"
    by blast+
  from split_at_bar [OF bar_notin_String_of_nat bar_notin_String_of_nat k1]
  have e2: "String_of_nat i1 = String_of_nat i2" and
    k2: "platform_str (platform p1) @ bar # format_str (format p1)
       @ bar # suggested_time_local p1 @ bar # take 80 (caption p1) @ bar # take 80 (media_instructions p1)
     = platform_str (platform p2) @ bar # format_str (format p2)
       @ bar # suggested_time_local p2 @ bar # take 80 (caption p2) @ bar # take 80 (media_instructions p2)"
    by blast+
  from split_at_bar [OF bar_notin_platform bar_notin_platform k2]
  have e3: "platform_str (platform p1) = platform_str (platform p2)" and
    k3: "format_str (format p1)
       @ bar # suggested_time_local p1 @ bar # take 80 (caption p1) @ bar # take 80 (media_instructions p1)
     = format_str (format p2)
       @ bar # suggested_time_local p2 @ bar # take 80 (caption p2) @ bar # take 80 (media_instructions p2)"
    by blast+
  from split_at_bar [OF bar_notin_format bar_notin_format k3]
  have e4: "format_str (format p1) = format_str (format p2)" and
    k4: "suggested_time_local p1 @ bar # take 80 (caption p1) @ bar # take 80 (media_instructions p1)
     = suggested_time_local p2 @ bar # take 80 (caption p2) @ bar # take 80 (media_instructions p2)"
    by blast+
  from h have t: "bar \<notin> set (suggested_time_local p1)" "bar \<notin> set (suggested_time_local p2)"
    by blast+
  from split_at_bar [OF t k4]
  have e5: "suggested_time_local p1 = suggested_time_local p2" and
    k5: "take 80 (caption p1) @ bar # take 80 (media_instructions p1)
     = take 80 (caption p2) @ bar # take 80 (media_instructions p2)"
    by blast+
  from h have c: "bar \<notin> set (take 80 (caption p1))" "bar \<notin> set (take 80 (caption p2))"
    by blast+
  from split_at_bar [OF c k5]
  have e6: "take 80 (caption p1) = take 80 (caption p2)"
    and e7: "take 80 (media_instructions p1) = take 80 (media_instructions p2)"
    by blast+
  from e1 String_of_nat_inj [OF e2] platform_str_inj [OF e3] format_str_inj [OF e4] e5 e6 e7
  show "d1 = d2 \<and> i1 = i2 \<and> platform p1 = platform p2 \<and> format p1 = format p2
          \<and> suggested_time_local p1 = suggested_time_local p2
          \<and> take 80 (caption p1) = take 80 (caption p2)
          \<and> take 80 (media_instructions p1) = take 80 (media_instructions p2)"
    by simp
qed

theorem makePostKey_eq_witness:
  "take 80 (caption ex_long1) = take 80 (caption ex_long2)
   \<and> caption ex_long1 \<noteq> caption ex_long2
   \<and> makePostKey (js ''2025-01-01'') ex_long1 0 = makePostKey (js ''2025-01-01'') ex_long2 0
   \<and> bar \<notin> set (js ''2025-01-01'')
   \<and> bar \<notin> set (suggested_time_local ex_long1) \<and> bar \<notin> set (suggested_time_local ex_near)
   \<and> bar \<notin> set (take 80 (caption ex_long1)) \<and> bar \<notin> set (take 80 (caption ex_near))
   \<and> take 80 (caption ex_long1) \<noteq> take 80 (caption ex_near)
   \<and> makePostKey (js ''2025-01-01'') ex_long1 0 \<noteq> makePostKey (js ''2025-01-01'') ex_near 0"
proof -
  have c12: "take 80 (caption ex_long1) = take 80 (caption ex_long2)"
    by (simp add: ex_long1_def ex_long2_def js_def)
  have n12: "caption ex_long1 \<noteq> caption ex_long2"
    by (simp add: ex_long1_def ex_long2_def js_def)
  have o12: "platform ex_long1 = platform ex_long2" "format ex_long1 = format ex_long2"
    "suggested_time_local ex_long1 = suggested_time_local ex_long2"
    "take 80 (media_instructions ex_long1) = take 80 (media_instructions ex_long2)"
    by (simp_all add: ex_long1_def ex_long2_def)
  have d: "bar \<notin> set (js ''2025-01-01'')" by (simp add: js_def bar_def)
  have t: "bar \<notin> set (suggested_time_local ex_long1)" "bar \<notin> set (suggested_time_local ex_near)"
    by (simp_all add: ex_long1_def ex_near_def ex_p1_def js_def bar_def)
  have c: "bar \<notin> set (take 80 (caption ex_long1))" "bar \<notin> set (take 80 (caption ex_near))"
    by (simp_all add: ex_long1_def ex_near_def js_def bar_def)
  have n: "take 80 (caption ex_long1) \<noteq> take 80 (caption ex_near)"
    by (simp add: ex_long1_def ex_near_def js_def)
  from makePostKey_eq [of "js ''2025-01-01''" "js ''2025-01-01''" 0 0 ex_long1 ex_long2] c12 o12
  have same: "makePostKey (js ''2025-01-01'') ex_long1 0 = makePostKey (js ''2025-01-01'') ex_long2 0"
    by blast
  from makePostKey_eq [of "js ''2025-01-01''" "js ''2025-01-01''" 0 0 ex_long1 ex_near] d t c n
  have "makePostKey (js ''2025-01-01'') ex_long1 0 \<noteq> makePostKey (js ''2025-01-01'') ex_near 0"
    by blast
  with c12 n12 same d t c n show ?thesis by blast
qed

section \<open>Properties of the approval registry\<close>

lemma upsert_approval_has:
  "\<exists>r\<in>set (upsert_approval row rows). r = row"
  by (auto simp: upsert_approval_def)

lemma upsert_approval_key:
  assumes "r \<in> set (upsert_approval row rows)"
    and "a_user_id r = a_user_id row" and "a_post_key r = a_post_key row"
  shows "r = row"
  using assms by (auto simp: upsert_approval_def split: if_splits)

lemma upsert_approval_other:
  "a_user_id r \<noteq> a_user_id row \<or> a_post_key r \<noteq> a_post_key row \<Longrightarrow>
   r \<in> set (upsert_approval row rows) \<longleftrightarrow> r \<in> set rows"
  by (auto simp: upsert_approval_def)

lemma approvals_POST_Json:
  assumes "approvals_POST pf now auth body s = (Json u, s')"
  shows "\<exists>userId b rawKey st.
           auth = Some userId \<and> userId \<noteq> [] \<and> body = Some b
           \<and> as_str (get_prop b ''postKey'') = Some rawKey
           \<and> normalizeSpaces rawKey \<noteq> []
           \<and> isStatus (get_prop b ''status'') = Some st
           \<and> s' = s\<lparr>plan_post_approvals :=
                  upsert_approval
                    (approval_record userId (normalizeSpaces rawKey) st
                       (map_option normalizeSpaces (as_str (get_prop b ''rejectReason'')))
                       (safeIsoOrNull pf (get_prop b ''decidedAtIso'')) now)
                    (plan_post_approvals s)\<rparr>"
  using assms
  by (simp add: approvals_POST_def Let_def split: option.splits if_splits)

lemma approval_record_fields:
  "a_user_id (approval_record userId pk st rr dt now) = userId"
  "a_post_key (approval_record userId pk st rr dt now) = pk"
  "status (approval_record userId pk st rr dt now) = st"
  "st = Pending \<Longrightarrow> decided_at (approval_record userId pk st rr dt now) = None"
  "st \<noteq> Rejected \<Longrightarrow> reject_reason (approval_record userId pk st rr dt now) = None"
  by (simp_all add: approval_record_def)

lemma ex_pending_POST:
  "approvals_POST ex_pf 9 (Some (js ''u1'')) (Some ex_pending_body) ex_db
   = (Json (), ex_db_pending)"
  by code_simp

text \<open>
  C6. When an approval set call succeeds, the table holds a row for the user and the
  stored key, and every row for that user and key has the submitted status, has
  \<open>decided_at\<close> null when the status is pending and has \<open>reject_reason\<close> null when the
  status is not rejected; whatever row was there before (approved or rejected, with its
  decision time and reason) is overwritten.
\<close>

theorem approvals_POST_record:
  assumes "approvals_POST pf now auth body s = (Json u, s')"
  shows "\<exists>userId b rawKey st.
           auth = Some userId \<and> body = Some b
           \<and> as_str (get_prop b ''postKey'') = Some rawKey
           \<and> isStatus (get_prop b ''status'') = Some st
           \<and> (\<exists>r\<in>set (plan_post_approvals s').
                 a_user_id r = userId \<and> a_post_key r = normalizeSpaces rawKey)
           \<and> (\<forall>r\<in>set (plan_post_approvals s').
                 a_user_id r = userId \<and> a_post_key r = normalizeSpaces rawKey \<longrightarrow>
                 status r = st
                 \<and> (st = Pending \<longrightarrow> decided_at r = None)
                 \<and> (st \<noteq> Rejected \<longrightarrow> reject_reason r = None))"
proof -
  from approvals_POST_Json [OF assms] obtain userId b rawKey st row where
    h: "auth = Some userId" "body = Some b" "as_str (get_prop b ''postKey'') = Some rawKey"
       "isStatus (get_prop b ''status'') = Some st"
    and row: "row = approval_record userId (normalizeSpaces rawKey) st
                       (map_option normalizeSpaces (as_str (get_prop b ''rejectReason'')))
                       (safeIsoOrNull pf (get_prop b ''decidedAtIso'')) now"
    and s': "s' = s\<lparr>plan_post_approvals := upsert_approval row (plan_post_approvals s)\<rparr>"
    by blast
  from row have f: "a_user_id row = userId" "a_post_key row = normalizeSpaces rawKey"
    "status row = st" "st = Pending \<longrightarrow> decided_at row = None"
    "st \<noteq> Rejected \<longrightarrow> reject_reason row = None"
    by (simp_all add: approval_record_fields)
  have ex: "\<exists>r\<in>set (plan_post_approvals s').
                 a_user_id r = userId \<and> a_post_key r = normalizeSpaces rawKey"
    using upsert_approval_has [of row "plan_post_approvals s"] f s' by auto
  have all: "status r = st \<and> (st = Pending \<longrightarrow> decided_at r = None)
                 \<and> (st \<noteq> Rejected \<longrightarrow> reject_reason r = None)"
    if "r \<in> set (plan_post_approvals s')" "a_user_id r = userId"
      "a_post_key r = normalizeSpaces rawKey" for r
  proof -
    from that s' f have "r = row" by (auto intro: upsert_approval_key)
    with f show ?thesis by simp
  qed
  from h ex all show ?thesis by blast
qed

theorem approvals_POST_record_witness:
  "approvals_POST ex_pf 9 (Some (js ''u1'')) (Some ex_pending_body) ex_db
     = (Json (), ex_db_pending)
   \<and> (\<exists>r\<in>set (plan_post_approvals ex_db).
         a_user_id r = js ''u1'' \<and> a_post_key r = ex_key \<and> status r = Approved
         \<and> decided_at r = Some 6)
   \<and> (\<exists>r\<in>set (plan_post_approvals ex_db_pending).
         a_user_id r = js ''u1'' \<and> a_post_key r = ex_key)
   \<and> \<not> (\<exists>r\<in>set (plan_post_approvals ex_db_pending).
           a_user_id r = js ''u1'' \<and> a_post_key r = ex_key
           \<and> \<not> (status r = Pending \<and> decided_at r = None \<and> reject_reason r = None))"
proof -
  have k: "as_str (get_prop ex_pending_body ''postKey'') = Some ex_key"
    by (simp add: ex_pending_body_def)
  have st: "isStatus (get_prop ex_pending_body ''status'') = Some Pending"
    by code_simp
  have n: "normalizeSpaces ex_key = ex_key"
    by code_simp
  have old: "\<exists>r\<in>set (plan_post_approvals ex_db).
         a_user_id r = js ''u1'' \<and> a_post_key r = ex_key \<and> status r = Approved
         \<and> decided_at r = Some 6"
    by (simp add: ex_db_def)
  from approvals_POST_record [OF ex_pending_POST] k st n
  have "(\<exists>r\<in>set (plan_post_approvals ex_db_pending).
           a_user_id r = js ''u1'' \<and> a_post_key r = ex_key)
        \<and> (\<forall>r\<in>set (plan_post_approvals ex_db_pending).
             a_user_id r = js ''u1'' \<and> a_post_key r = ex_key \<longrightarrow>
             status r = Pending \<and> decided_at r = None \<and> reject_reason r = None)"
    by auto
  with ex_pending_POST old show ?thesis by blast
qed

section \<open>Stored keys against derived keys\<close>


lemma dropWhile_last:
  "xs \<noteq> [] \<Longrightarrow> \<not> P (last xs) \<Longrightarrow> dropWhile P xs \<noteq> [] \<and> last (dropWhile P xs) = last xs"
  by (induction xs) (auto split: if_splits)

lemma trim_ends:
  assumes "trim s \<noteq> []"
  shows "\<not> is_ws (hd (trim s))" and "\<not> is_ws (last (trim s))"
proof -
  let ?u = "dropWhile is_ws s"
  let ?v = "dropWhile is_ws (rev ?u)"
  from assms have v: "?v \<noteq> []" by (simp add: trim_def)
  then have u: "?u \<noteq> []" by (auto dest: set_dropWhileD)
  from v have "\<not> is_ws (hd ?v)" by (rule hd_dropWhile)
  with v show "\<not> is_ws (last (trim s))" by (simp add: trim_def last_rev)
  from u have hu: "\<not> is_ws (hd ?u)" by (rule hd_dropWhile)
  with u have "\<not> is_ws (last (rev ?u))" by (simp add: last_rev)
  with u have lv: "last ?v = last (rev ?u)" using dropWhile_last [of "rev ?u" is_ws] by simp
  from v have "hd (trim s) = last ?v" by (simp add: trim_def hd_rev)
  also from u lv have "\<dots> = hd ?u" by (simp add: last_rev)
  finally show "\<not> is_ws (hd (trim s))" using hu by simp
qed

lemma collapse_ws_hd:
  "t \<noteq> [] \<Longrightarrow> \<not> is_ws (hd t) \<Longrightarrow> collapse_ws t \<noteq> [] \<and> hd (collapse_ws t) = hd t"
  by (cases t) auto

lemma collapse_ws_last:
  "t \<noteq> [] \<Longrightarrow> \<not> is_ws (last t) \<Longrightarrow> collapse_ws t \<noteq> [] \<and> last (collapse_ws t) = last t"
proof (induction t rule: collapse_ws.induct)
  case 1
  then show ?case by simp
next
  case (2 c cs)
  show ?case
  proof (cases "is_ws c")
    case True
    with 2(3,4) have cs: "cs \<noteq> []" "\<not> is_ws (last cs)" by (auto split: if_splits)
    from dropWhile_last [of cs is_ws] cs have d: "dropWhile is_ws cs \<noteq> []"
      "last (dropWhile is_ws cs) = last cs" by simp_all
    with 2(1) [OF True] cs have "collapse_ws (dropWhile is_ws cs) \<noteq> []"
      "last (collapse_ws (dropWhile is_ws cs)) = last cs" by simp_all
    with True cs show ?thesis by simp
  next
    case False
    show ?thesis
    proof (cases "cs = []")
      case True
      with False show ?thesis by simp
    next
      case ne: False
      with 2(4) have "\<not> is_ws (last cs)" by simp
      with 2(2) [OF False ne] ne False show ?thesis by simp
    qed
  qed
qed

lemma collapse_ws_space: "c \<in> set (collapse_ws t) \<Longrightarrow> is_ws c \<Longrightarrow> c = 0x20"
proof (induction t rule: collapse_ws.induct)
  case 1
  then show ?case by simp
next
  case (2 d cs)
  then show ?case by (cases "is_ws d") auto
qed

lemma collapse_ws_no_pair: "\<not> has_ws_pair (collapse_ws t)"
proof (induction t rule: collapse_ws.induct)
  case 1
  then show ?case by simp
next
  case (2 c cs)
  show ?case
  proof (cases "is_ws c")
    case True
    let ?d = "dropWhile is_ws cs"
    show ?thesis
    proof (cases "collapse_ws ?d")
      case Nil
      with True show ?thesis by simp
    next
      case (Cons x xs)
      have ne: "?d \<noteq> []"
      proof
        assume "?d = []"
        then have "collapse_ws ?d = []" by (simp only: collapse_ws.simps)
        with Cons show False by simp
      qed
      then have "\<not> is_ws (hd ?d)" by (rule hd_dropWhile)
      from collapse_ws_hd [OF ne this] Cons have "\<not> is_ws x" using \<open>\<not> is_ws (hd ?d)\<close> by simp
      with 2(1) [OF True] Cons True show ?thesis by simp
    qed
  next
    case False
    with 2(2) [OF False] show ?thesis by (cases "collapse_ws cs") auto
  qed
qed

lemma normalizeSpaces_clean: "\<not> ws_defect (normalizeSpaces s)"
proof -
  let ?t = "trim s"
  have ends: "\<not> is_ws (hd (collapse_ws ?t)) \<and> \<not> is_ws (last (collapse_ws ?t))"
    if ne: "collapse_ws ?t \<noteq> []"
  proof -
    from ne have t: "?t \<noteq> []" by auto
    from trim_ends [OF t] collapse_ws_hd [OF t] collapse_ws_last [OF t]
    show ?thesis by simp
  qed
  have "\<not> list_ex (\<lambda>c. is_ws c \<and> c \<noteq> 0x20) (collapse_ws ?t)"
    using collapse_ws_space [of _ ?t] by (auto simp: list_ex_iff)
  with ends collapse_ws_no_pair [of ?t] show ?thesis
    by (auto simp: ws_defect_def normalizeSpaces_def)
qed

lemma ws_defect_changes: "ws_defect k \<Longrightarrow> normalizeSpaces k \<noteq> k"
  using normalizeSpaces_clean [of k] by auto

lemma normalizeSpaces_nonempty:
  assumes "c \<in> set s" and "\<not> is_ws c"
  shows "normalizeSpaces s \<noteq> []"
proof -
  from assms have "dropWhile is_ws s \<noteq> []" by (auto simp: dropWhile_eq_Nil_conv)
  moreover from assms have "dropWhile is_ws (rev s) \<noteq> []" by (auto simp: dropWhile_eq_Nil_conv)
  ultimately have t: "trim s \<noteq> []"
    apply (simp add: trim_def dropWhile_eq_Nil_conv)
    by (metis assms dropWhile_eq_Nil_conv set_dropWhileD set_rev hd_dropWhile list.set_sel(1))
  from trim_ends(1) [OF t] collapse_ws_hd [OF t] show ?thesis
    by (simp add: normalizeSpaces_def)
qed

lemma makePostKey_nonblank: "normalizeSpaces (makePostKey d p i) \<noteq> []"
proof -
  have "bar \<in> set (makePostKey d p i)" by (simp add: makePostKey_def)
  moreover have "\<not> is_ws bar" by (simp add: is_ws_def bar_def)
  ultimately show ?thesis by (rule normalizeSpaces_nonempty)
qed

lemma dispatchReadyKeys_iff:
  "k \<in> set (dispatchReadyKeys (select_dispatch_ready u s)) \<longleftrightarrow>
   k \<noteq> [] \<and> (\<exists>r\<in>set (plan_dispatch s). d_user_id r = u \<and> d_post_key r = k \<and> ready r)"
  by (auto simp: dispatchReadyKeys_def select_dispatch_ready_def)

lemma upsert_dispatch_has:
  "\<exists>r\<in>set (upsert_dispatch now u nk rdy rows). d_user_id r = u \<and> d_post_key r = nk \<and> ready r = rdy"
proof (cases "\<exists>r\<in>set rows. d_user_id r = u \<and> d_post_key r = nk")
  case True
  then obtain r where r: "r \<in> set rows" "d_user_id r = u" "d_post_key r = nk" by blast
  with True have "r\<lparr>ready := rdy\<rparr> \<in> set (upsert_dispatch now u nk rdy rows)"
    by (force simp: upsert_dispatch_def)
  with r show ?thesis by (intro bexI [of _ "r\<lparr>ready := rdy\<rparr>"]) simp_all
next
  case False
  then show ?thesis by (auto simp: upsert_dispatch_def)
qed

lemma upsert_dispatch_other_key:
  assumes "nk \<noteq> k"
  shows "(\<exists>r\<in>set (upsert_dispatch now u nk rdy rows). d_user_id r = u \<and> d_post_key r = k \<and> ready r)
         \<longleftrightarrow> (\<exists>r\<in>set rows. d_user_id r = u \<and> d_post_key r = k \<and> ready r)"
  using assms by (auto simp: upsert_dispatch_def)

lemma fold_approvals_filter:
  "m k = m' k \<Longrightarrow>
   fold (\<lambda>row m. if a_post_key row = [] then m else m(a_post_key row \<mapsto> row)) rows m k
   = fold (\<lambda>row m. if a_post_key row = [] then m else m(a_post_key row \<mapsto> row))
       (filter (\<lambda>r. a_post_key r = k) rows) m' k"
proof (induction rows arbitrary: m m')
  case Nil
  then show ?case by simp
next
  case (Cons a rows)
  show ?case
  proof (cases "a_post_key a = k")
    case True
    have "(if a_post_key a = [] then m else m(a_post_key a \<mapsto> a)) k
          = (if a_post_key a = [] then m' else m'(a_post_key a \<mapsto> a)) k"
      using Cons.prems True by auto
    from Cons.IH [of "if a_post_key a = [] then m else m(a_post_key a \<mapsto> a)"
        "if a_post_key a = [] then m' else m'(a_post_key a \<mapsto> a)"] this True
    show ?thesis by simp
  next
    case False
    have "(if a_post_key a = [] then m else m(a_post_key a \<mapsto> a)) k = m' k"
      using Cons.prems False by simp
    from Cons.IH [of "if a_post_key a = [] then m else m(a_post_key a \<mapsto> a)" m'] this False
    show ?thesis by simp
  qed
qed

lemma approvals_of_filter:
  "approvals_of rows k = approvals_of (filter (\<lambda>r. a_post_key r = k) rows) k"
  unfolding approvals_of_def by (rule fold_approvals_filter) simp

lemma upsert_approval_filter:
  assumes "a_post_key row \<noteq> k"
  shows "filter (\<lambda>r. a_post_key r = k) (filter (\<lambda>r. a_user_id r = u) (upsert_approval row rows))
         = filter (\<lambda>r. a_post_key r = k) (filter (\<lambda>r. a_user_id r = u) rows)"
proof -
  have "filter (\<lambda>r. a_post_key r = k \<and> a_user_id r = u)
          (map (\<lambda>r. if a_user_id r = a_user_id row \<and> a_post_key r = a_post_key row
                       then row else r) rows)
        = filter (\<lambda>r. a_post_key r = k \<and> a_user_id r = u) rows"
    using assms by (induction rows) auto
  with assms show ?thesis
    by (auto simp: upsert_approval_def conj_commute)
qed

lemma upsert_approval_lookup:
  assumes "a_post_key row \<noteq> k"
  shows "approvals_of (select_approvals u (s\<lparr>plan_post_approvals := upsert_approval row (plan_post_approvals s)\<rparr>)) k
         = approvals_of (select_approvals u s) k"
  using upsert_approval_filter [OF assms, of u "plan_post_approvals s"]
    approvals_of_filter [of "select_approvals u s" k]
    approvals_of_filter [of "filter (\<lambda>r. a_user_id r = u) (upsert_approval row (plan_post_approvals s))" k]
  by (simp add: select_approvals_def)

lemma dispatch_POST_ok:
  assumes "u \<noteq> []" and "is_object_like b"
    and "as_str (get_prop b ''postKey'') = Some k" and "normalizeSpaces k \<noteq> []"
    and "as_bool (get_prop b ''ready'') = Some rdy"
  shows "dispatch_POST now (Some u) (Some b) s
         = (Json (), s\<lparr>plan_dispatch := upsert_dispatch now u (normalizeSpaces k) rdy (plan_dispatch s)\<rparr>)"
  using assms by (simp add: dispatch_POST_def Let_def)

lemma approvals_POST_ok:
  assumes "u \<noteq> []" and "is_object_like b"
    and "as_str (get_prop b ''postKey'') = Some k" and "normalizeSpaces k \<noteq> []"
    and "isStatus (get_prop b ''status'') = Some st"
  shows "approvals_POST pf now (Some u) (Some b) s
         = (Json (), s\<lparr>plan_post_approvals :=
                  upsert_approval
                    (approval_record u (normalizeSpaces k) st
                       (map_option normalizeSpaces (as_str (get_prop b ''rejectReason'')))
                       (safeIsoOrNull pf (get_prop b ''decidedAtIso'')) now)
                    (plan_post_approvals s)\<rparr>)"
  using assms by (simp add: approvals_POST_def Let_def)

text \<open>
  C5. Both set operations store \<open>normalizeSpaces postKey\<close>, while the resolver looks
  posts up under the key \<open>makePostKey\<close> derives from the raw caption and media
  instructions. For every post whose derived key has whitespace at either end, two
  whitespace characters in a row, or a whitespace character other than a space (a
  newline, say): the normalised key differs from the derived key; a dispatch or approval
  set call made under the derived key succeeds and stores its row under the normalised
  key; and the resolver's two lookups of the derived key (membership in the ready keys,
  the approvals entry) answer after the call what they answered before it, so that a post
  that was not dispatch-ready before is not emitted after.
\<close>

theorem normalized_key_never_matches:
  assumes "k = makePostKey d p i" and "ws_defect k" and "u \<noteq> []"
    and "is_object_like b" and "as_str (get_prop b ''postKey'') = Some k"
  shows "normalizeSpaces k \<noteq> k
    \<and> (\<forall>rdy. as_bool (get_prop b ''ready'') = Some rdy \<longrightarrow>
         (\<exists>s'. dispatch_POST now (Some u) (Some b) s = (Json (), s')
            \<and> (\<exists>r\<in>set (plan_dispatch s').
                  d_user_id r = u \<and> d_post_key r = normalizeSpaces k \<and> ready r = rdy)
            \<and> (k \<in> set (dispatchReadyKeys (select_dispatch_ready u s'))
                 \<longleftrightarrow> k \<in> set (dispatchReadyKeys (select_dispatch_ready u s)))
            \<and> (k \<notin> set (dispatchReadyKeys (select_dispatch_ready u s)) \<longrightarrow>
                 (\<forall>cmp body. dispatch_ready_GET cmp (Some u) s' = Json body \<longrightarrow>
                    (\<forall>it\<in>set (items body). postKey it \<noteq> k)))))
    \<and> (\<forall>st. isStatus (get_prop b ''status'') = Some st \<longrightarrow>
         (\<exists>s'. approvals_POST pf now (Some u) (Some b) s = (Json (), s')
            \<and> (\<exists>r\<in>set (plan_post_approvals s').
                  a_user_id r = u \<and> a_post_key r = normalizeSpaces k \<and> status r = st)
            \<and> approvals_of (select_approvals u s') k = approvals_of (select_approvals u s) k))"
proof (intro conjI allI impI)
  from assms(2) show ne: "normalizeSpaces k \<noteq> k" by (rule ws_defect_changes)
  from assms(1) have nb: "normalizeSpaces k \<noteq> []" by (simp add: makePostKey_nonblank)
  {
    fix rdy assume r: "as_bool (get_prop b ''ready'') = Some rdy"
    let ?s' = "s\<lparr>plan_dispatch := upsert_dispatch now u (normalizeSpaces k) rdy (plan_dispatch s)\<rparr>"
    have post: "dispatch_POST now (Some u) (Some b) s = (Json (), ?s')"
      using assms(3,4,5) nb r by (rule dispatch_POST_ok)
    have has: "\<exists>r\<in>set (plan_dispatch ?s').
                  d_user_id r = u \<and> d_post_key r = normalizeSpaces k \<and> ready r = rdy"
      using upsert_dispatch_has [of now u "normalizeSpaces k" rdy "plan_dispatch s"] by simp
    have same: "k \<in> set (dispatchReadyKeys (select_dispatch_ready u ?s'))
                 \<longleftrightarrow> k \<in> set (dispatchReadyKeys (select_dispatch_ready u s))"
      using upsert_dispatch_other_key [OF ne, of now u rdy "plan_dispatch s"]
      by (simp add: dispatchReadyKeys_iff)
    have gate: "\<forall>it\<in>set (items body). postKey it \<noteq> k"
      if "k \<notin> set (dispatchReadyKeys (select_dispatch_ready u s))"
        and g: "dispatch_ready_GET cmp (Some u) ?s' = Json body" for cmp body
    proof
      fix it assume "it \<in> set (items body)"
      from GET_item [OF g this] obtain day idx where
        "ready_post (dispatchReadyKeys (select_dispatch_ready u ?s'))
           (dispatchUpdatedAt (select_dispatch_ready u ?s'))
           (approvals_of (select_approvals u ?s')) day (idx, posts day ! idx) = Some it"
        by auto
      from ready_post_Some(2) [OF this] same that(1) show "postKey it \<noteq> k" by auto
    qed
    from post has same gate
    show "\<exists>s'. dispatch_POST now (Some u) (Some b) s = (Json (), s')
            \<and> (\<exists>r\<in>set (plan_dispatch s').
                  d_user_id r = u \<and> d_post_key r = normalizeSpaces k \<and> ready r = rdy)
            \<and> (k \<in> set (dispatchReadyKeys (select_dispatch_ready u s'))
                 \<longleftrightarrow> k \<in> set (dispatchReadyKeys (select_dispatch_ready u s)))
            \<and> (k \<notin> set (dispatchReadyKeys (select_dispatch_ready u s)) \<longrightarrow>
                 (\<forall>cmp body. dispatch_ready_GET cmp (Some u) s' = Json body \<longrightarrow>
                    (\<forall>it\<in>set (items body). postKey it \<noteq> k)))"
      by blast
  }
  {
    fix st assume st: "isStatus (get_prop b ''status'') = Some st"
    let ?row = "approval_record u (normalizeSpaces k) st
                       (map_option normalizeSpaces (as_str (get_prop b ''rejectReason'')))
                       (safeIsoOrNull pf (get_prop b ''decidedAtIso'')) now"
    let ?s' = "s\<lparr>plan_post_approvals := upsert_approval ?row (plan_post_approvals s)\<rparr>"
    have post: "approvals_POST pf now (Some u) (Some b) s = (Json (), ?s')"
      using assms(3,4,5) nb st by (rule approvals_POST_ok)
    have key: "a_post_key ?row \<noteq> k" using ne by (simp add: approval_record_fields)
    have "?row \<in> set (plan_post_approvals ?s')"
      using upsert_approval_has [of ?row "plan_post_approvals s"] by simp
    then have has: "\<exists>r\<in>set (plan_post_approvals ?s').
                  a_user_id r = u \<and> a_post_key r = normalizeSpaces k \<and> status r = st"
      by (rule bexI [rotated]) (simp add: approval_record_fields)
    from post has upsert_approval_lookup [OF key, of u s]
    show "\<exists>s'. approvals_POST pf now (Some u) (Some b) s = (Json (), s')
            \<and> (\<exists>r\<in>set (plan_post_approvals s').
                  a_user_id r = u \<and> a_post_key r = normalizeSpaces k \<and> status r = st)
            \<and> approvals_of (select_approvals u s') k = approvals_of (select_approvals u s) k"
      by blast
  }
qed

theorem normalized_key_never_matches_witness:
  "valid_plan ex_ws_plan_json = Some ex_ws_plan
   \<and> ex_ws_key = makePostKey (js ''2025-01-01'') ex_ws_post 0 \<and> ws_defect ex_ws_key
   \<and> js ''u1'' \<noteq> [] \<and> is_object_like ex_ws_body
   \<and> as_str (get_prop ex_ws_body ''postKey'') = Some ex_ws_key
   \<and> normalizeSpaces ex_ws_key \<noteq> ex_ws_key
   \<and> dispatch_POST 9 (Some (js ''u1'')) (Some ex_ws_body) ex_ws_db = (Json (), ex_ws_db_marked)
   \<and> (\<exists>r\<in>set (plan_dispatch ex_ws_db_marked).
         d_user_id r = js ''u1'' \<and> d_post_key r = normalizeSpaces ex_ws_key \<and> ready r)
   \<and> ex_ws_key \<notin> set (dispatchReadyKeys (select_dispatch_ready (js ''u1'') ex_ws_db_marked))
   \<and> dispatch_ready_GET (\<lambda>a b. 0) (Some (js ''u1'')) ex_ws_db_marked = Json ex_ws_answer
   \<and> \<not> (\<exists>it\<in>set (items ex_ws_answer). postKey it = ex_ws_key)
   \<and> (\<exists>s'. approvals_POST ex_pf 9 (Some (js ''u1'')) (Some ex_ws_body) ex_ws_db = (Json (), s')
          \<and> (\<exists>r\<in>set (plan_post_approvals s').
                a_user_id r = js ''u1'' \<and> a_post_key r = normalizeSpaces ex_ws_key
                \<and> status r = Approved)
          \<and> approvals_of (select_approvals (js ''u1'') s') ex_ws_key = None)"
proof -
  have v: "valid_plan ex_ws_plan_json = Some ex_ws_plan" by code_simp
  have k: "ex_ws_key = makePostKey (js ''2025-01-01'') ex_ws_post 0" by (simp add: ex_ws_key_def)
  have d: "ws_defect ex_ws_key" by code_simp
  have u: "js ''u1'' \<noteq> []" by (simp add: js_def)
  have o: "is_object_like ex_ws_body" by (simp add: ex_ws_body_def)
  have p: "as_str (get_prop ex_ws_body ''postKey'') = Some ex_ws_key"
    by (simp add: ex_ws_body_def)
  have r: "as_bool (get_prop ex_ws_body ''ready'') = Some True"
    by (simp add: ex_ws_body_def js_def)
  have st: "isStatus (get_prop ex_ws_body ''status'') = Some Approved"
    by (simp add: ex_ws_body_def js_def isStatus_def)
  have nd: "ex_ws_key \<notin> set (dispatchReadyKeys (select_dispatch_ready (js ''u1'') ex_ws_db))"
    by (simp add: dispatchReadyKeys_def select_dispatch_ready_def ex_ws_db_def)
  have na: "approvals_of (select_approvals (js ''u1'') ex_ws_db) ex_ws_key = None"
    by (simp add: approvals_of_def select_approvals_def ex_ws_db_def)
  have post: "dispatch_POST 9 (Some (js ''u1'')) (Some ex_ws_body) ex_ws_db = (Json (), ex_ws_db_marked)"
    by code_simp
  have get: "dispatch_ready_GET (\<lambda>a b. 0) (Some (js ''u1'')) ex_ws_db_marked = Json ex_ws_answer"
    by code_simp
  note t = normalized_key_never_matches [OF k d u o p,
      where now = 9 and s = ex_ws_db and pf = ex_pf]
  from t have c1: "normalizeSpaces ex_ws_key \<noteq> ex_ws_key" by blast
  from t r obtain s' where s': "dispatch_POST 9 (Some (js ''u1'')) (Some ex_ws_body) ex_ws_db = (Json (), s')"
    and h: "\<exists>r\<in>set (plan_dispatch s').
                d_user_id r = js ''u1'' \<and> d_post_key r = normalizeSpaces ex_ws_key \<and> ready r"
    and e: "ex_ws_key \<in> set (dispatchReadyKeys (select_dispatch_ready (js ''u1'') s'))
            \<longleftrightarrow> ex_ws_key \<in> set (dispatchReadyKeys (select_dispatch_ready (js ''u1'') ex_ws_db))"
    and g: "ex_ws_key \<notin> set (dispatchReadyKeys (select_dispatch_ready (js ''u1'') ex_ws_db)) \<longrightarrow>
              (\<forall>cmp body. dispatch_ready_GET cmp (Some (js ''u1'')) s' = Json body \<longrightarrow>
                 (\<forall>it\<in>set (items body). postKey it \<noteq> ex_ws_key))"
    by (metis (no_types, lifting))
  from s' post have m: "s' = ex_ws_db_marked" by simp
  from h m have c2: "\<exists>r\<in>set (plan_dispatch ex_ws_db_marked).
         d_user_id r = js ''u1'' \<and> d_post_key r = normalizeSpaces ex_ws_key \<and> ready r"
    by simp
  from e m nd have c3: "ex_ws_key \<notin> set (dispatchReadyKeys (select_dispatch_ready (js ''u1'') ex_ws_db_marked))"
    by simp
  from g m nd get have c4: "\<not> (\<exists>it\<in>set (items ex_ws_answer). postKey it = ex_ws_key)"
    by blast
  from t st na have c5: "\<exists>s'. approvals_POST ex_pf 9 (Some (js ''u1'')) (Some ex_ws_body) ex_ws_db = (Json (), s')
          \<and> (\<exists>r\<in>set (plan_post_approvals s').
                a_user_id r = js ''u1'' \<and> a_post_key r = normalizeSpaces ex_ws_key
                \<and> status r = Approved)
          \<and> approvals_of (select_approvals (js ''u1'') s') ex_ws_key = None"
    by (metis (no_types, lifting))
  from v k d u o p c1 post c2 c3 get c4 c5 show ?thesis by blast
qed

section \<open>Properties of the review settings\<close>

lemma upsert_settings_has: "row \<in> set (upsert_settings row rows)"
  by (auto simp: upsert_settings_def)

lemma upsert_settings_user:
  "r \<in> set (upsert_settings row rows) \<Longrightarrow> rs_user_id r = rs_user_id row \<Longrightarrow> r = row"
  by (auto simp: upsert_settings_def split: if_splits)

lemma review_settings_POST_Json:
  assumes "review_settings_POST pf now auth body s = (Json u, s')"
  shows "\<exists>userId b reviewUrl chan tmpl. auth = Some userId \<and> body = Some b
           \<and> s' = s\<lparr>review_settings :=
                      upsert_settings
                        (settings_record userId reviewUrl
                           (delayMinutes (get_prop b ''sendDelayMinutes'')) chan tmpl now)
                        (review_settings s)\<rparr>"
  using assms
  by (auto simp: review_settings_POST_def Let_def split: option.splits if_splits)

lemma delayMinutes_finite:
  "delayMinutes (Some (JNum (Finite q)))
   = (if \<lfloor>q\<rfloor> < 0 then 0 else if 10080 < \<lfloor>q\<rfloor> then 10080 else \<lfloor>q\<rfloor>)"
  by (simp add: delayMinutes_def)

lemma delayMinutes_default:
  "(\<And>q. x \<noteq> Some (JNum (Finite q))) \<Longrightarrow> delayMinutes x = 120"
  by (cases x rule: as_num.cases) (auto simp: delayMinutes_def split: jsnum.splits)

lemma ex_settings_POST:
  "review_settings_POST ex_pf 9 (Some (js ''u1'')) (Some ex_settings_body) ex_rdb0
   = (Json (), ex_rdb1)"
  by code_simp

text \<open>
  C9. When the review settings are saved, every row of the user holds
  \<open>delayMinutes\<close> of the submitted \<open>sendDelayMinutes\<close>. For a finite number that is its
  floor clamped into \<open>[0, 10080]\<close> (so \<open>-5\<close> gives 0 and 999999 gives 10080); for anything
  else (absent, not a number, \<open>NaN\<close> or an infinity) it is the default 120.
\<close>

theorem save_delay_clamped:
  "(review_settings_POST pf now auth body s = (Json u, s') \<longrightarrow>
      (\<exists>userId b. auth = Some userId \<and> body = Some b
         \<and> (\<exists>r\<in>set (review_settings s'). rs_user_id r = userId)
         \<and> (\<forall>r\<in>set (review_settings s'). rs_user_id r = userId \<longrightarrow>
               send_delay_minutes r
               = JNum (Finite (of_int (delayMinutes (get_prop b ''sendDelayMinutes'')))))))
   \<and> (\<forall>q. x = Some (JNum (Finite q)) \<longrightarrow>
         delayMinutes x = (if \<lfloor>q\<rfloor> < 0 then 0 else if 10080 < \<lfloor>q\<rfloor> then 10080 else \<lfloor>q\<rfloor>)
         \<and> 0 \<le> delayMinutes x \<and> delayMinutes x \<le> 10080)
   \<and> ((\<forall>q. x \<noteq> Some (JNum (Finite q))) \<longrightarrow> delayMinutes x = 120)
   \<and> delayMinutes (Some (JNum (Finite (- 5)))) = 0
   \<and> delayMinutes (Some (JNum (Finite 999999))) = 10080
   \<and> delayMinutes (Some (JStr (js ''abc''))) = 120
   \<and> delayMinutes (Some (JNum NaN)) = 120
   \<and> delayMinutes None = 120"
proof -
  have a: "\<exists>userId b. auth = Some userId \<and> body = Some b
         \<and> (\<exists>r\<in>set (review_settings s'). rs_user_id r = userId)
         \<and> (\<forall>r\<in>set (review_settings s'). rs_user_id r = userId \<longrightarrow>
               send_delay_minutes r
               = JNum (Finite (of_int (delayMinutes (get_prop b ''sendDelayMinutes'')))))"
    if "review_settings_POST pf now auth body s = (Json u, s')"
  proof -
    from review_settings_POST_Json [OF that] obtain userId b reviewUrl chan tmpl where
      h0: "auth = Some userId" "body = Some b"
      "s' = s\<lparr>review_settings :=
                      upsert_settings
                        (settings_record userId reviewUrl
                           (delayMinutes (get_prop b ''sendDelayMinutes'')) chan tmpl now)
                        (review_settings s)\<rparr>"
      by blast
    define row where "row = settings_record userId reviewUrl
                           (delayMinutes (get_prop b ''sendDelayMinutes'')) chan tmpl now"
    with h0 have h: "auth = Some userId" "body = Some b" "rs_user_id row = userId"
      "send_delay_minutes row
        = JNum (Finite (of_int (delayMinutes (get_prop b ''sendDelayMinutes''))))"
      "s' = s\<lparr>review_settings := upsert_settings row (review_settings s)\<rparr>"
      by (simp_all add: settings_record_def)
    have "row \<in> set (review_settings s')" using h(5) by (simp add: upsert_settings_has)
    with h(3) have ex: "\<exists>r\<in>set (review_settings s'). rs_user_id r = userId" by blast
    have "r = row" if "r \<in> set (review_settings s')" "rs_user_id r = userId" for r
      using that h(3,5) by (auto intro: upsert_settings_user)
    with h ex show ?thesis by blast
  qed
  have b: "delayMinutes x = (if \<lfloor>q\<rfloor> < 0 then 0 else if 10080 < \<lfloor>q\<rfloor> then 10080 else \<lfloor>q\<rfloor>)
         \<and> 0 \<le> delayMinutes x \<and> delayMinutes x \<le> 10080" if "x = Some (JNum (Finite q))" for q
    using that by (simp add: delayMinutes_finite)
  have c: "delayMinutes x = 120" if "\<forall>q. x \<noteq> Some (JNum (Finite q))"
    using that by (intro delayMinutes_default) simp
  have d: "delayMinutes (Some (JNum (Finite (- 5)))) = 0"
    "delayMinutes (Some (JNum (Finite 999999))) = 10080"
    "delayMinutes (Some (JStr (js ''abc''))) = 120"
    "delayMinutes (Some (JNum NaN)) = 120"
    "delayMinutes None = 120"
    by (simp_all add: delayMinutes_def)
  from a b c d show ?thesis by blast
qed

theorem save_delay_clamped_witness:
  "review_settings_POST ex_pf 9 (Some (js ''u1'')) (Some ex_settings_body) ex_rdb0
     = (Json (), ex_rdb1)
   \<and> get_prop ex_settings_body ''sendDelayMinutes'' = Some (JNum (Finite (- 5)))
   \<and> (\<exists>r\<in>set (review_settings ex_rdb1).
         rs_user_id r = js ''u1'' \<and> send_delay_minutes r = JNum (Finite 0))
   \<and> delayMinutes (Some (JNum (Finite 45))) = 45
   \<and> delayMinutes (Some (JBool True)) = 120"
proof -
  have g: "get_prop ex_settings_body ''sendDelayMinutes'' = Some (JNum (Finite (- 5)))"
    by (simp add: ex_settings_body_def js_def)
  note t1 = save_delay_clamped [of ex_pf 9 "Some (js ''u1'')" "Some ex_settings_body" ex_rdb0
      "()" ex_rdb1 "Some (JNum (Finite 45))"]
  note t2 = save_delay_clamped [of ex_pf 9 "Some (js ''u1'')" "Some ex_settings_body" ex_rdb0
      "()" ex_rdb1 "Some (JBool True)"]
  from t1 ex_settings_POST g
  have "\<exists>r\<in>set (review_settings ex_rdb1).
         rs_user_id r = js ''u1'' \<and> send_delay_minutes r = JNum (Finite 0)"
    by auto
  moreover from t1 have "delayMinutes (Some (JNum (Finite 45)))
      = (if \<lfloor>45 :: rat\<rfloor> < 0 then 0 else if 10080 < \<lfloor>45 :: rat\<rfloor> then 10080 else \<lfloor>45 :: rat\<rfloor>)"
    by blast
  then have "delayMinutes (Some (JNum (Finite 45))) = 45" by simp
  moreover from t2 have "delayMinutes (Some (JBool True)) = 120" by blast
  ultimately show ?thesis using ex_settings_POST g by blast
qed

section \<open>Properties of the due-job selection\<close>

lemma sorted_take_drop:
  assumes "sorted (map f xs)" and "a \<in> set (take n xs)" and "b \<in> set (drop n xs)"
  shows "f a \<le> f b"
proof -
  have "sorted (map f (take n xs) @ map f (drop n xs))"
    using assms(1) by (simp flip: map_append)
  with assms(2,3) show ?thesis by (auto simp: sorted_append)
qed

lemma ex_fetchDue: "fetchDueJobs 25 3600000 ex_jdb = [ex_job 2 3000000 Queued]"
  by code_simp

text \<open>
  C7. For every set of review jobs, \<open>fetchDueJobs\<close> at time \<open>now\<close> returns only jobs of
  the table that are queued and scheduled at or before \<open>now\<close>, in ascending order of
  \<open>scheduled_for\<close>; it returns as many of them as the limit allows: all of them (as a
  multiset) when they fit, and otherwise ones scheduled no later than every due job it
  leaves out. A job scheduled in the future, or sent or failed, is not returned.
\<close>

theorem fetchDueJobs_due:
  "(\<forall>j\<in>set (fetchDueJobs limit now s).
       j \<in> set (review_jobs s) \<and> j_status j = Queued \<and> scheduled_for j \<le> now)
   \<and> sorted (map scheduled_for (fetchDueJobs limit now s))
   \<and> length (fetchDueJobs limit now s)
       = min limit (length (filter (\<lambda>j. j_status j = Queued \<and> scheduled_for j \<le> now) (review_jobs s)))
   \<and> (length (filter (\<lambda>j. j_status j = Queued \<and> scheduled_for j \<le> now) (review_jobs s)) \<le> limit
        \<longrightarrow> mset (fetchDueJobs limit now s)
            = mset (filter (\<lambda>j. j_status j = Queued \<and> scheduled_for j \<le> now) (review_jobs s)))
   \<and> (\<forall>j\<in>set (review_jobs s).
         j_status j = Queued \<and> scheduled_for j \<le> now \<and> j \<notin> set (fetchDueJobs limit now s)
         \<longrightarrow> (\<forall>r\<in>set (fetchDueJobs limit now s). scheduled_for r \<le> scheduled_for j))"
proof -
  let ?due = "filter (\<lambda>j. j_status j = Queued \<and> scheduled_for j \<le> now) (review_jobs s)"
  let ?srt = "sort_key scheduled_for ?due"
  have f: "fetchDueJobs limit now s = take limit ?srt" by (simp add: fetchDueJobs_def)
  have s: "sorted (map scheduled_for ?srt)" by simp
  have a: "j \<in> set (review_jobs s) \<and> j_status j = Queued \<and> scheduled_for j \<le> now"
    if "j \<in> set (fetchDueJobs limit now s)" for j
  proof -
    from that f have "j \<in> set ?srt" by (auto dest: in_set_takeD)
    then show ?thesis by simp
  qed
  have b: "sorted (map scheduled_for (fetchDueJobs limit now s))"
    unfolding f take_map [symmetric] using s by (rule sorted_wrt_take)
  have c: "length (fetchDueJobs limit now s) = min limit (length ?due)"
    by (simp add: f min.commute)
  have d: "mset (fetchDueJobs limit now s) = mset ?due" if "length ?due \<le> limit"
    using that by (simp add: f)
  have e: "scheduled_for r \<le> scheduled_for j"
    if "j \<in> set (review_jobs s)" "j_status j = Queued \<and> scheduled_for j \<le> now"
      "j \<notin> set (fetchDueJobs limit now s)" "r \<in> set (fetchDueJobs limit now s)" for j r
  proof -
    from that(1,2) have "j \<in> set ?srt" by simp
    then have "j \<in> set (take limit ?srt) \<union> set (drop limit ?srt)"
      by (metis append_take_drop_id set_append)
    with that(3) f have jd: "j \<in> set (drop limit ?srt)" by auto
    from that(4) f have rt: "r \<in> set (take limit ?srt)" by simp
    from s rt jd show ?thesis by (rule sorted_take_drop)
  qed
  from a b c d e show ?thesis by blast
qed

theorem fetchDueJobs_due_witness:
  "fetchDueJobs 25 3600000 ex_jdb = [ex_job 2 3000000 Queued]
   \<and> length (filter (\<lambda>j. j_status j = Queued \<and> scheduled_for j \<le> 3600000) (review_jobs ex_jdb)) \<le> 25
   \<and> mset (filter (\<lambda>j. j_status j = Queued \<and> scheduled_for j \<le> 3600000) (review_jobs ex_jdb))
       = {#ex_job 2 3000000 Queued#}
   \<and> ex_job 2 3000000 Queued \<in> set (review_jobs ex_jdb)
   \<and> j_status (ex_job 2 3000000 Queued) = Queued
   \<and> scheduled_for (ex_job 2 3000000 Queued) \<le> 3600000
   \<and> ex_job 1 3900000 Queued \<notin> set (fetchDueJobs 25 3600000 ex_jdb)
   \<and> ex_job 3 0 Sent \<notin> set (fetchDueJobs 25 3600000 ex_jdb)"
proof -
  have l: "length (filter (\<lambda>j. j_status j = Queued \<and> scheduled_for j \<le> 3600000) (review_jobs ex_jdb)) \<le> 25"
    by (simp add: ex_jdb_def ex_job_def)
  note t = fetchDueJobs_due [of 25 3600000 ex_jdb]
  from t l have m: "mset (fetchDueJobs 25 3600000 ex_jdb)
      = mset (filter (\<lambda>j. j_status j = Queued \<and> scheduled_for j \<le> 3600000) (review_jobs ex_jdb))"
    by blast
  have i: "ex_job 2 3000000 Queued \<in> set (fetchDueJobs 25 3600000 ex_jdb)"
    by (simp add: ex_fetchDue)
  with t have p: "ex_job 2 3000000 Queued \<in> set (review_jobs ex_jdb)
    \<and> j_status (ex_job 2 3000000 Queued) = Queued
    \<and> scheduled_for (ex_job 2 3000000 Queued) \<le> 3600000" by blast
  have n1: "\<not> scheduled_for (ex_job 1 3900000 Queued) \<le> 3600000" by (simp add: ex_job_def)
  have n3: "j_status (ex_job 3 0 Sent) \<noteq> Queued" by (simp add: ex_job_def)
  from t n1 have o1: "ex_job 1 3900000 Queued \<notin> set (fetchDueJobs 25 3600000 ex_jdb)" by blast
  from t n3 have o3: "ex_job 3 0 Sent \<notin> set (fetchDueJobs 25 3600000 ex_jdb)" by blast
  from m have "mset (filter (\<lambda>j. j_status j = Queued \<and> scheduled_for j \<le> 3600000) (review_jobs ex_jdb))
       = {#ex_job 2 3000000 Queued#}" by (simp add: ex_fetchDue)
  with ex_fetchDue l p o1 o3 show ?thesis by blast
qed

section \<open>Properties of the appointment webhook\<close>

lemma maybeSingle_length:
  "length xs = 0 \<Longrightarrow> maybeSingle xs = NoRow"
  "length xs = 1 \<Longrightarrow> \<exists>x. maybeSingle xs = OneRow x"
  "maybeSingle xs = NoRow \<Longrightarrow> length xs = 0"
  "maybeSingle xs = OneRow x \<Longrightarrow> length xs = 1"
  by (cases xs rule: maybeSingle.cases; simp)+

lemma fold_max_ge: "a \<le> fold max ids (a::nat) \<and> (\<forall>i\<in>set ids. i \<le> fold max ids a)"
proof (induction ids arbitrary: a)
  case Nil
  then show ?case by simp
next
  case (Cons x ids)
  from Cons [of "max x a"] show ?case by auto
qed

lemma fresh_id_new: "fresh_id ids \<notin> set ids"
  using fold_max_ge [of 0 ids] by (auto simp: fresh_id_def)

lemma trim_Nil: "trim [] = []"
  by (simp add: trim_def)

lemma webhook_POST_accepted:
  assumes "hook_accepts pf slug rawText s u obj"
  shows "\<exists>st. maybeSingle (filter (\<lambda>r. rs_user_id r = u) (review_settings s)) = OneRow st
           \<and> webhook_POST pf now None slug rawText s = ingest pf now u st obj s"
  using assms
  by (auto simp: hook_accepts_def webhook_POST_def trim_Nil split: single.splits)

lemma webhook_POST_state:
  assumes "webhook_POST pf now tok slug rawText s = (r, s')"
  shows "s' = s \<or>
         (\<exists>bk st obj. JSON_parse pf rawText = Some obj
            \<and> maybeSingle (filter (\<lambda>r. b_slug r = slug) (booking_settings s)) = OneRow bk
            \<and> ingest pf now (b_user_id bk) st obj s = (r, s'))"
  using assms
  by (auto simp: webhook_POST_def split: option.splits if_splits single.splits)

lemma hook_accepts_cong:
  "booking_settings s' = booking_settings s \<Longrightarrow> review_settings s' = review_settings s \<Longrightarrow>
   hook_accepts pf slug rawText s' u obj = hook_accepts pf slug rawText s u obj"
  by (simp add: hook_accepts_def)

lemma ingest_dedup:
  assumes "obj \<noteq> JNull" and "extract_event_id obj = Some eid" and "count_events u eid s = 1"
  shows "ingest pf now u st obj s = (Json Deduped, s)"
proof -
  from assms(3) maybeSingle_length(2) obtain ev where
    "maybeSingle (filter (\<lambda>r. e_user_id r = u \<and> external_event_id r = Some eid)
        (appointment_events s)) = OneRow ev"
    unfolding count_events_def by blast
  with assms(1,2) show ?thesis by (simp add: ingest_def find_existing_def)
qed

lemma ingest_insert:
  assumes "obj \<noteq> JNull"
    and "extract_event_id obj = None \<or> (\<exists>eid. extract_event_id obj = Some eid \<and> count_events u eid s = 0)"
  shows "ingest pf now u st obj s = insert_event_and_job pf now u st obj s"
  using assms maybeSingle_length(1)
  by (auto simp: ingest_def find_existing_def count_events_def)

lemma ingest_unchanged_or_insert:
  "ingest pf now u st obj s = (r, s') \<Longrightarrow>
   (s' = s \<and> r \<noteq> Json Deduped \<and> (\<forall>a b. r \<noteq> Json (NotQueued a b)) \<and> (\<forall>a b c. r \<noteq> Json (QueuedFor a b c)))
   \<or> (s' = s \<and> r = Json Deduped \<and> (\<exists>eid. extract_event_id obj = Some eid \<and> count_events u eid s = 1))
   \<or> ((extract_event_id obj = None \<or> (\<exists>eid. extract_event_id obj = Some eid \<and> count_events u eid s = 0))
       \<and> insert_event_and_job pf now u st obj s = (r, s'))"
  by (auto simp: ingest_def find_existing_def count_events_def
      split: if_splits single.splits option.splits dest: maybeSingle_length(3,4))

lemma insert_event_and_job_effect:
  assumes "insert_event_and_job pf now u st obj s = (r, s')"
  shows "\<exists>ev. appointment_events s' = appointment_events s @ [ev]
           \<and> e_user_id ev = u \<and> external_event_id ev = extract_event_id obj
           \<and> e_id ev \<notin> set (map e_id (appointment_events s))
           \<and> booking_settings s' = booking_settings s \<and> review_settings s' = review_settings s
           \<and> ((recipient_missing st obj \<and> (\<exists>why. r = Json (NotQueued why (e_id ev)))
                \<and> review_jobs s' = review_jobs s)
               \<or> (\<not> recipient_missing st obj \<and> (\<exists>t ch. r = Json (QueuedFor t ch (e_id ev)))
                   \<and> (\<exists>job. review_jobs s' = review_jobs s @ [job]
                         \<and> appointment_event_id job = e_id ev \<and> j_user_id job = u
                         \<and> j_status job = Queued)))"
  using assms fresh_id_new [of "map e_id (appointment_events s)"]
  by (auto simp: insert_event_and_job_def Let_def recipient_missing_def
      split: option.splits if_splits)

lemma count_events_append:
  "appointment_events s' = appointment_events s @ [ev] \<Longrightarrow>
   count_events u eid s' =
   count_events u eid s + (if e_user_id ev = u \<and> external_event_id ev = Some eid then 1 else 0)"
  by (simp add: count_events_def)

lemma hook_accepts_not_null: "hook_accepts pf slug rawText s u obj \<Longrightarrow> obj \<noteq> JNull"
  by (simp add: hook_accepts_def)

lemma webhook_same_id:
  assumes a1: "hook_accepts pf slug raw1 s u obj1" and e1: "extract_event_id obj1 = Some eid"
    and c: "count_events u eid s \<le> 1"
    and p1: "webhook_POST pf now1 None slug raw1 s = (r1, s1)"
    and a2: "hook_accepts pf slug raw2 s1 u obj2" and e2: "extract_event_id obj2 = Some eid"
    and p2: "webhook_POST pf now2 None slug raw2 s1 = (r2, s2)"
  shows "count_events u eid s2 = 1 \<and> r2 = Json Deduped \<and> s2 = s1
         \<and> (review_jobs s2 = review_jobs s
             \<or> (\<exists>job. review_jobs s2 = review_jobs s @ [job] \<and> j_user_id job = u))
         \<and> (count_events u eid s = 0 \<longrightarrow>
               (\<exists>ev. appointment_events s2 = appointment_events s @ [ev]
                  \<and> e_user_id ev = u \<and> external_event_id ev = Some eid))
         \<and> (count_events u eid s = 1 \<longrightarrow> r1 = Json Deduped \<and> s2 = s)"
proof -
  from webhook_POST_accepted [OF a1] p1 obtain st1 where
    i1: "ingest pf now1 u st1 obj1 s = (r1, s1)" by metis
  from webhook_POST_accepted [OF a2] p2 obtain st2 where
    i2: "ingest pf now2 u st2 obj2 s1 = (r2, s2)" by metis
  note n1 = hook_accepts_not_null [OF a1] and n2 = hook_accepts_not_null [OF a2]
  from c consider (zero) "count_events u eid s = 0" | (one) "count_events u eid s = 1"
    by linarith
  then show ?thesis
  proof cases
    case zero
    with ingest_insert [OF n1, of u s pf now1 st1] e1 i1
    have "insert_event_and_job pf now1 u st1 obj1 s = (r1, s1)" by simp
    from insert_event_and_job_effect [OF this] e1 obtain ev where
      ev: "appointment_events s1 = appointment_events s @ [ev]" "e_user_id ev = u"
        "external_event_id ev = Some eid"
      and jobs: "review_jobs s1 = review_jobs s
             \<or> (\<exists>job. review_jobs s1 = review_jobs s @ [job] \<and> j_user_id job = u)"
      by auto
    from count_events_append [OF ev(1), of u eid] ev(2,3) zero
    have c1: "count_events u eid s1 = 1" by simp
    from ingest_dedup [OF n2 e2 c1, of pf now2 st2] i2 have "r2 = Json Deduped" "s2 = s1"
      by simp_all
    with c1 jobs ev zero show ?thesis by auto
  next
    case one
    from ingest_dedup [OF n1 e1 one, of pf now1 st1] i1 have d1: "r1 = Json Deduped" "s1 = s"
      by simp_all
    with one have c1: "count_events u eid s1 = 1" by simp
    from ingest_dedup [OF n2 e2 c1, of pf now2 st2] i2 have "r2 = Json Deduped" "s2 = s1"
      by simp_all
    with d1 c1 one show ?thesis by auto
  qed
qed

lemma webhook_no_id:
  assumes a: "hook_accepts pf slug rawText s u obj" and e: "extract_event_id obj = None"
    and p: "webhook_POST pf now None slug rawText s = (r, s')"
  shows "r \<noteq> Json Deduped
         \<and> (\<exists>ev. appointment_events s' = appointment_events s @ [ev]
               \<and> e_user_id ev = u \<and> external_event_id ev = None
               \<and> e_id ev \<notin> set (map e_id (appointment_events s)))"
proof -
  from webhook_POST_accepted [OF a] p obtain st where
    i: "ingest pf now u st obj s = (r, s')" by metis
  with ingest_insert [OF hook_accepts_not_null [OF a], of u s pf now st] e
  have "insert_event_and_job pf now u st obj s = (r, s')" by simp
  from insert_event_and_job_effect [OF this] e show ?thesis by auto
qed

lemma hook_accepts_slug:
  "hook_accepts pf slug rawText s u obj \<Longrightarrow>
   \<exists>bk. maybeSingle (filter (\<lambda>r. b_slug r = slug) (booking_settings s)) = OneRow bk
        \<and> b_user_id bk = u"
  by (auto simp: hook_accepts_def split: single.splits)

lemma retry_keeps_state:
  assumes bk: "maybeSingle (filter (\<lambda>r. b_slug r = slug) (booking_settings s)) = OneRow bk"
    and c: "count_events (b_user_id bk) eid s = 1"
    and j: "JSON_parse pf rawText = Some obj" and e: "extract_event_id obj = Some eid"
  shows "snd (webhook_POST pf now None slug rawText s) = s"
proof -
  obtain r s' where p: "webhook_POST pf now None slug rawText s = (r, s')"
    by (cases "webhook_POST pf now None slug rawText s")
  from webhook_POST_state [OF p] have "s' = s"
  proof
    assume "s' = s" then show ?thesis .
  next
    assume "\<exists>bk st obj. JSON_parse pf rawText = Some obj
            \<and> maybeSingle (filter (\<lambda>r. b_slug r = slug) (booking_settings s)) = OneRow bk
            \<and> ingest pf now (b_user_id bk) st obj s = (r, s')"
    with bk j obtain st where "ingest pf now (b_user_id bk) st obj s = (r, s')" by auto
    from ingest_unchanged_or_insert [OF this] e c show ?thesis by auto
  qed
  with p show ?thesis by simp
qed

lemma retries_keep_state:
  assumes bk: "maybeSingle (filter (\<lambda>r. b_slug r = slug) (booking_settings s)) = OneRow bk"
    and c: "count_events (b_user_id bk) eid s = 1"
    and all: "\<forall>c\<in>set calls. \<exists>obj. JSON_parse pf (snd c) = Some obj \<and> extract_event_id obj = Some eid"
  shows "webhook_calls pf slug calls s = s"
  using all
proof (induction calls)
  case Nil
  then show ?case by simp
next
  case (Cons c calls)
  then obtain obj where "JSON_parse pf (snd c) = Some obj" "extract_event_id obj = Some eid"
    by auto
  from retry_keeps_state [OF bk c this, of "fst c"] Cons show ?case by simp
qed

lemma ex_accepts_hook: "hook_accepts ex_pf (js ''salon'') ex_hook_text ex_rdb1 (js ''u1'') ex_hook_json"
  by code_simp

lemma ex_accepts_retry: "hook_accepts ex_pf (js ''salon'') ex_retry_text ex_rdb1 (js ''u1'') ex_retry_json"
  by code_simp

lemma ex_accepts_anon: "hook_accepts ex_pf (js ''salon'') ex_anon_text ex_rdb1 (js ''u1'') ex_anon_json"
  by code_simp

lemma ex_ids:
  "extract_event_id ex_hook_json = Some (js ''evt-1'')"
  "extract_event_id ex_retry_json = Some (js ''evt-1'')"
  "extract_event_id ex_anon_json = None"
  "extract_email ex_retry_json = Some (js ''ann@example.org'')"
  by code_simp+

lemma ex_hook_skip:
  "webhook_POST ex_pf 100 None (js ''salon'') ex_hook_text ex_rdb1
   = (Json (NotQueued ''missing_customer_email'' 1), ex_rdb_s)"
  by code_simp

lemma ex_hook_queue:
  "webhook_POST ex_pf 100 None (js ''salon'') ex_retry_text ex_rdb1
   = (Json (QueuedFor 100 Email 1), ex_rdb_q)"
  by code_simp

lemma ex_tables:
  "booking_settings ex_rdb_s = booking_settings ex_rdb1"
  "review_settings ex_rdb_s = review_settings ex_rdb1"
  "booking_settings ex_rdb_q = booking_settings ex_rdb1"
  "review_settings ex_rdb_q = review_settings ex_rdb1"
  by (simp_all add: ex_rdb_s_def ex_rdb_q_def)

text \<open>
  C8. Take a user whose slug and review settings let the webhook through, and a store
  with at most one event of that user for an external id. Two calls in a row whose
  payloads (JSON values other than \<open>null\<close>) carry that id leave exactly one event of the
  user with that id; the second call answers \<open>deduped\<close> and changes nothing; and the
  two calls together add at most one review job. A call whose payload yields no external
  id is not answered \<open>deduped\<close> and appends an event with a fresh id and no external id.
\<close>

theorem webhook_dedup:
  "(hook_accepts pf slug raw1 s u obj1 \<and> extract_event_id obj1 = Some eid
    \<and> count_events u eid s \<le> 1
    \<and> webhook_POST pf now1 None slug raw1 s = (r1, s1)
    \<and> hook_accepts pf slug raw2 s1 u obj2 \<and> extract_event_id obj2 = Some eid
    \<and> webhook_POST pf now2 None slug raw2 s1 = (r2, s2)
    \<longrightarrow> count_events u eid s2 = 1 \<and> r2 = Json Deduped \<and> s2 = s1
        \<and> (review_jobs s2 = review_jobs s
            \<or> (\<exists>job. review_jobs s2 = review_jobs s @ [job] \<and> j_user_id job = u))
        \<and> (count_events u eid s = 0 \<longrightarrow>
              (\<exists>ev. appointment_events s2 = appointment_events s @ [ev]
                 \<and> e_user_id ev = u \<and> external_event_id ev = Some eid))
        \<and> (count_events u eid s = 1 \<longrightarrow> r1 = Json Deduped \<and> s2 = s))
   \<and> (hook_accepts pf slug raw3 t u obj3 \<and> extract_event_id obj3 = None
       \<and> webhook_POST pf now3 None slug raw3 t = (r3, t')
       \<longrightarrow> r3 \<noteq> Json Deduped
           \<and> (\<exists>ev. appointment_events t' = appointment_events t @ [ev]
                 \<and> e_user_id ev = u \<and> external_event_id ev = None
                 \<and> e_id ev \<notin> set (map e_id (appointment_events t))))"
  using webhook_same_id [of pf slug raw1 s u obj1 eid now1 r1 s1 raw2 obj2 now2 r2 s2]
    webhook_no_id [of pf slug raw3 t u obj3 now3 r3 t']
  by blast

theorem webhook_dedup_witness:
  "hook_accepts ex_pf (js ''salon'') ex_retry_text ex_rdb1 (js ''u1'') ex_retry_json
   \<and> extract_event_id ex_retry_json = Some (js ''evt-1'')
   \<and> count_events (js ''u1'') (js ''evt-1'') ex_rdb1 = 0
   \<and> webhook_POST ex_pf 100 None (js ''salon'') ex_retry_text ex_rdb1
       = (Json (QueuedFor 100 Email 1), ex_rdb_q)
   \<and> hook_accepts ex_pf (js ''salon'') ex_hook_text ex_rdb_q (js ''u1'') ex_hook_json
   \<and> extract_event_id ex_hook_json = Some (js ''evt-1'')
   \<and> webhook_POST ex_pf 200 None (js ''salon'') ex_hook_text ex_rdb_q = (Json Deduped, ex_rdb_q)
   \<and> count_events (js ''u1'') (js ''evt-1'') ex_rdb_q = 1
   \<and> length (review_jobs ex_rdb_q) = 1
   \<and> hook_accepts ex_pf (js ''salon'') ex_anon_text ex_rdb_q (js ''u1'') ex_anon_json
   \<and> extract_event_id ex_anon_json = None
   \<and> fst (webhook_POST ex_pf 300 None (js ''salon'') ex_anon_text ex_rdb_q) \<noteq> Json Deduped
   \<and> (\<exists>ev. appointment_events (snd (webhook_POST ex_pf 300 None (js ''salon'') ex_anon_text ex_rdb_q))
             = appointment_events ex_rdb_q @ [ev]
          \<and> external_event_id ev = None)"
proof -
  have c0: "count_events (js ''u1'') (js ''evt-1'') ex_rdb1 = 0"
    by (simp add: count_events_def ex_rdb1_def ex_rdb0_def)
  have a2: "hook_accepts ex_pf (js ''salon'') ex_hook_text ex_rdb_q (js ''u1'') ex_hook_json"
    using ex_accepts_hook by (simp add: hook_accepts_cong [OF ex_tables(3,4)])
  have a3: "hook_accepts ex_pf (js ''salon'') ex_anon_text ex_rdb_q (js ''u1'') ex_anon_json"
    using ex_accepts_anon by (simp add: hook_accepts_cong [OF ex_tables(3,4)])
  have l: "length (review_jobs ex_rdb_q) = 1" by (simp add: ex_rdb_q_def)
  note t = webhook_dedup [of ex_pf "js ''salon''" ex_retry_text ex_rdb1 "js ''u1''" ex_retry_json
      "js ''evt-1''" 100 "Json (QueuedFor 100 Email 1)" ex_rdb_q ex_hook_text ex_hook_json 200
      "fst (webhook_POST ex_pf 200 None (js ''salon'') ex_hook_text ex_rdb_q)"
      "snd (webhook_POST ex_pf 200 None (js ''salon'') ex_hook_text ex_rdb_q)"
      ex_anon_text ex_rdb_q ex_anon_json 300
      "fst (webhook_POST ex_pf 300 None (js ''salon'') ex_anon_text ex_rdb_q)"
      "snd (webhook_POST ex_pf 300 None (js ''salon'') ex_anon_text ex_rdb_q)"]
  have pc2: "webhook_POST ex_pf 200 None (js ''salon'') ex_hook_text ex_rdb_q
      = (fst (webhook_POST ex_pf 200 None (js ''salon'') ex_hook_text ex_rdb_q),
         snd (webhook_POST ex_pf 200 None (js ''salon'') ex_hook_text ex_rdb_q))"
    by simp
  have pc3: "webhook_POST ex_pf 300 None (js ''salon'') ex_anon_text ex_rdb_q
      = (fst (webhook_POST ex_pf 300 None (js ''salon'') ex_anon_text ex_rdb_q),
         snd (webhook_POST ex_pf 300 None (js ''salon'') ex_anon_text ex_rdb_q))"
    by simp
  have le: "count_events (js ''u1'') (js ''evt-1'') ex_rdb1 \<le> 1" using c0 by simp
  from t ex_accepts_retry ex_ids(2) le ex_hook_queue a2 ex_ids(1) pc2
  have two: "count_events (js ''u1'') (js ''evt-1'')
               (snd (webhook_POST ex_pf 200 None (js ''salon'') ex_hook_text ex_rdb_q)) = 1
     \<and> fst (webhook_POST ex_pf 200 None (js ''salon'') ex_hook_text ex_rdb_q) = Json Deduped
     \<and> snd (webhook_POST ex_pf 200 None (js ''salon'') ex_hook_text ex_rdb_q) = ex_rdb_q"
    by blast
  with pc2 have d: "webhook_POST ex_pf 200 None (js ''salon'') ex_hook_text ex_rdb_q = (Json Deduped, ex_rdb_q)"
    by metis
  from two have c1: "count_events (js ''u1'') (js ''evt-1'') ex_rdb_q = 1" by metis
  from t a3 ex_ids(3) pc3
  have three: "fst (webhook_POST ex_pf 300 None (js ''salon'') ex_anon_text ex_rdb_q) \<noteq> Json Deduped
     \<and> (\<exists>ev. appointment_events (snd (webhook_POST ex_pf 300 None (js ''salon'') ex_anon_text ex_rdb_q))
             = appointment_events ex_rdb_q @ [ev]
          \<and> external_event_id ev = None)"
    by blast
  from ex_accepts_retry ex_ids c0 ex_hook_queue a2 d c1 l a3 three show ?thesis by blast
qed

text \<open>
  C10. When the webhook answers that it did not queue a job, for a payload that carries an
  external id, the recipient of the selected channel was missing from the payload, the
  event is in the store already and no job was added. From then on every call for the
  same slug whose payload carries that id is answered \<open>deduped\<close> and leaves the store as
  it is, whatever else the payload supplies: no review job is created for that event.
\<close>

theorem skipped_event_blocks_retries:
  assumes a: "hook_accepts pf slug raw1 s u obj1" and e: "extract_event_id obj1 = Some eid"
    and p: "webhook_POST pf now None slug raw1 s = (Json (NotQueued why evid), s1)"
  shows "(\<exists>st. maybeSingle (filter (\<lambda>r. rs_user_id r = u) (review_settings s)) = OneRow st
            \<and> recipient_missing st obj1)
    \<and> (\<exists>ev\<in>set (appointment_events s1).
          e_id ev = evid \<and> e_user_id ev = u \<and> external_event_id ev = Some eid)
    \<and> count_events u eid s1 = 1
    \<and> review_jobs s1 = review_jobs s
    \<and> (\<forall>now' raw2 obj2.
          hook_accepts pf slug raw2 s1 u obj2 \<and> extract_event_id obj2 = Some eid
          \<longrightarrow> webhook_POST pf now' None slug raw2 s1 = (Json Deduped, s1))
    \<and> (\<forall>calls.
          (\<forall>c\<in>set calls. \<exists>obj. JSON_parse pf (snd c) = Some obj \<and> extract_event_id obj = Some eid)
          \<longrightarrow> webhook_calls pf slug calls s1 = s1)"
proof -
  from webhook_POST_accepted [OF a, of now] p obtain st where
    st: "maybeSingle (filter (\<lambda>r. rs_user_id r = u) (review_settings s)) = OneRow st"
    and i: "ingest pf now u st obj1 s = (Json (NotQueued why evid), s1)" by metis
  from ingest_unchanged_or_insert [OF i] e have c0: "count_events u eid s = 0"
    and ins: "insert_event_and_job pf now u st obj1 s = (Json (NotQueued why evid), s1)"
    by auto
  from insert_event_and_job_effect [OF ins] e obtain ev where
    ev: "appointment_events s1 = appointment_events s @ [ev]" "e_user_id ev = u"
      "external_event_id ev = Some eid" "e_id ev = evid"
    and tb: "booking_settings s1 = booking_settings s" "review_settings s1 = review_settings s"
    and miss: "recipient_missing st obj1" and jobs: "review_jobs s1 = review_jobs s"
    by auto
  from count_events_append [OF ev(1), of u eid] ev(2,3) c0
  have c1: "count_events u eid s1 = 1" by simp
  from ev have mem: "\<exists>ev\<in>set (appointment_events s1).
          e_id ev = evid \<and> e_user_id ev = u \<and> external_event_id ev = Some eid" by auto
  have retry: "webhook_POST pf now' None slug raw2 s1 = (Json Deduped, s1)"
    if "hook_accepts pf slug raw2 s1 u obj2" "extract_event_id obj2 = Some eid"
    for now' raw2 obj2
  proof -
    from webhook_POST_accepted [OF that(1), of now'] obtain st2 where
      "webhook_POST pf now' None slug raw2 s1 = ingest pf now' u st2 obj2 s1" by blast
    with ingest_dedup [OF hook_accepts_not_null [OF that(1)] that(2) c1] show ?thesis by simp
  qed
  from hook_accepts_slug [OF a] tb obtain bk where
    bk: "maybeSingle (filter (\<lambda>r. b_slug r = slug) (booking_settings s1)) = OneRow bk"
    "b_user_id bk = u" by auto
  have many: "webhook_calls pf slug calls s1 = s1"
    if "\<forall>c\<in>set calls. \<exists>obj. JSON_parse pf (snd c) = Some obj \<and> extract_event_id obj = Some eid"
    for calls
    using bk(1) _ that by (rule retries_keep_state) (simp add: bk(2) c1)
  from st miss mem c1 jobs retry many show ?thesis by blast
qed

theorem skipped_event_blocks_retries_witness:
  "hook_accepts ex_pf (js ''salon'') ex_hook_text ex_rdb1 (js ''u1'') ex_hook_json
   \<and> extract_event_id ex_hook_json = Some (js ''evt-1'')
   \<and> webhook_POST ex_pf 100 None (js ''salon'') ex_hook_text ex_rdb1
       = (Json (NotQueued ''missing_customer_email'' 1), ex_rdb_s)
   \<and> review_jobs ex_rdb_s = []
   \<and> hook_accepts ex_pf (js ''salon'') ex_retry_text ex_rdb_s (js ''u1'') ex_retry_json
   \<and> extract_event_id ex_retry_json = Some (js ''evt-1'')
   \<and> extract_email ex_retry_json = Some (js ''ann@example.org'')
   \<and> webhook_POST ex_pf 200 None (js ''salon'') ex_retry_text ex_rdb_s = (Json Deduped, ex_rdb_s)
   \<and> webhook_calls ex_pf (js ''salon'') [(200, ex_retry_text), (300, ex_retry_text)] ex_rdb_s
       = ex_rdb_s"
proof -
  have a2: "hook_accepts ex_pf (js ''salon'') ex_retry_text ex_rdb_s (js ''u1'') ex_retry_json"
    using ex_accepts_retry by (simp add: hook_accepts_cong [OF ex_tables(1,2)])
  have j: "review_jobs ex_rdb_s = []" by (simp add: ex_rdb_s_def ex_rdb1_def ex_rdb0_def)
  have p: "JSON_parse ex_pf ex_retry_text = Some ex_retry_json"
    using ex_accepts_retry by (simp add: hook_accepts_def)
  note t = skipped_event_blocks_retries [OF ex_accepts_hook ex_ids(1) ex_hook_skip]
  from t a2 ex_ids(2)
  have d: "webhook_POST ex_pf 200 None (js ''salon'') ex_retry_text ex_rdb_s = (Json Deduped, ex_rdb_s)"
    by blast
  have "\<forall>c\<in>set [(200, ex_retry_text), (300, ex_retry_text)].
          \<exists>obj. JSON_parse ex_pf (snd c) = Some obj \<and> extract_event_id obj = Some (js ''evt-1'')"
    using p ex_ids(2) by simp
  with t have m: "webhook_calls ex_pf (js ''salon'') [(200, ex_retry_text), (300, ex_retry_text)] ex_rdb_s
       = ex_rdb_s"
    by blast
  from ex_accepts_hook ex_ids ex_hook_skip j a2 d m show ?thesis by blast
qed

section \<open>Properties of the plan generator\<close>

lemma first_some_mem: "first_some xs = Some v \<Longrightarrow> Some v \<in> set xs"
  by (induction xs rule: first_some.induct) auto

lemma parse_candidate_shape:
  "parse_candidate pf v hint = Some (pl, h) \<Longrightarrow> looksLikePlan pl"
  by (auto simp: parse_candidate_def split: option.splits if_splits)

lemma content_candidate_shape:
  assumes "content_candidate pf c = Some (pl, h)"
  shows "looksLikePlan pl"
proof -
  from first_some_mem [OF assms [unfolded content_candidate_def]]
  show ?thesis
    by (auto dest: parse_candidate_shape [OF sym] split: json.splits option.splits if_splits)
qed

lemma output_candidate_shape:
  assumes "output_candidate pf payload = Some (pl, h)"
  shows "looksLikePlan pl"
proof -
  from assms obtain outp where
    "first_some
       (map (\<lambda>item. case as_arr (get_prop item ''content'') of
                       None \<Rightarrow> None
                     | Some content \<Rightarrow> first_some (map (content_candidate pf) content))
          outp) = Some (pl, h)"
    by (auto simp: output_candidate_def split: option.splits)
  from first_some_mem [OF this] obtain content where
    "first_some (map (content_candidate pf) content) = Some (pl, h)"
    by (auto split: option.splits)
  from first_some_mem [OF this] obtain c where "content_candidate pf c = Some (pl, h)"
    by auto
  then show ?thesis by (rule content_candidate_shape)
qed

lemma extract_shape:
  assumes "extractPlanFromResponsesPayload pf payload = Some (pl, h)"
  shows "looksLikePlan pl"
proof -
  from first_some_mem [OF assms [unfolded extractPlanFromResponsesPayload_def]]
  show ?thesis
    by (auto dest: parse_candidate_shape [OF sym] output_candidate_shape [OF sym] split: if_splits)
qed

lemma plan_GET_Json:
  assumes "plan_GET pf now auth k m up = Json body"
  shows "\<exists>st rawText parsed.
           up = Upstream True st rawText \<and> JSON_parse pf rawText = Some parsed
           \<and> extractPlanFromResponsesPayload pf parsed
               = Some (body_plan body, extractedFrom (body_meta body))"
  using assms
  by (auto simp: plan_GET_def Let_def
      split: option.splits if_splits sum.splits upstream.splits prod.splits)

lemma plan_GET_no_candidate:
  assumes "up = Upstream True st rawText"
    and "\<forall>parsed. JSON_parse pf rawText = Some parsed
           \<longrightarrow> extractPlanFromResponsesPayload pf parsed = None"
  shows "plan_GET pf now auth k m up
         \<in> {JsonError (js ''Unauthorized'') 401,
            JsonError (js ''Missing environment variable: OPENAI_API_KEY'') 500,
            JsonError (js ''Missing environment variable: OPENAI_MODEL'') 500,
            JsonError (js ''OpenAI returned non-JSON response. Check server logs.'') 502,
            JsonError
              (js ''OpenAI returned an unexpected format. Check server logs for the raw response.'')
              502}"
proof -
  have env: "requireEnv name v = Inl msg \<Longrightarrow> msg = js ''Missing environment variable: '' @ js name"
    for name v msg
    by (auto simp: requireEnv_def split: option.splits if_splits)
  have j: "js (a @ b) = js a @ js b" for a b by (simp add: js_def)
  show ?thesis
    using assms
    by (auto simp: plan_GET_def Let_def j [symmetric]
        split: option.splits if_splits sum.splits prod.splits dest!: env)
qed

lemma valid_plan_looks:
  assumes "isValidPlan j"
  shows "looksLikePlan j"
  using assms
  by (cases j)
    (auto simp: isValidPlan_def valid_plan_def looksLikePlan_def
      split: if_splits option.splits Option.bind_splits)

lemma find_append_case:
  "List.find P (xs @ ys) = (case List.find P xs of None \<Rightarrow> List.find P ys | Some x \<Rightarrow> Some x)"
  by (induction xs) auto

lemma first_some_Cons:
  "first_some (a # xs) = (case a of None \<Rightarrow> first_some xs | Some v \<Rightarrow> Some v)"
  by (cases a) auto

lemma first_some_map_find:
  assumes "\<And>x. x \<in> set xs \<Longrightarrow> f x = List.find P (g x)"
  shows "first_some (map f xs) = List.find P (concat (map g xs))"
  using assms
  by (induction xs) (auto simp: first_some_Cons find_append_case split: option.splits)

lemma parse_candidate_find:
  "parse_candidate pf v hint = List.find (\<lambda>c. looksLikePlan (fst c)) (parsed_field pf v hint)"
  by (auto simp: parse_candidate_def parsed_field_def split: option.splits)

lemma content_candidate_find:
  "content_candidate pf c = List.find (\<lambda>c. looksLikePlan (fst c)) (content_candidates pf c)"
  by (cases c)
    (auto simp: content_candidate_def content_candidates_def first_some_Cons find_append_case
      parse_candidate_find split: option.splits)

lemma output_candidate_find:
  "output_candidate pf payload
   = List.find (\<lambda>c. looksLikePlan (fst c)) (output_candidates pf payload)"
proof -
  have inner: "(case as_arr (get_prop item ''content'') of
                  None \<Rightarrow> None
                | Some content \<Rightarrow> first_some (map (content_candidate pf) content))
               = List.find (\<lambda>c. looksLikePlan (fst c))
                   (case as_arr (get_prop item ''content'') of
                      None \<Rightarrow> []
                    | Some content \<Rightarrow> concat (map (content_candidates pf) content))" for item
    by (auto split: option.splits intro!: first_some_map_find simp: content_candidate_find)
  show ?thesis
    unfolding output_candidate_def output_candidates_def
    by (auto split: option.splits intro!: first_some_map_find simp: inner)
qed

lemma extract_first_accepted:
  "extractPlanFromResponsesPayload pf payload = first_accepted pf payload"
  by (simp add: extractPlanFromResponsesPayload_def first_accepted_def candidates_def
      first_some_Cons find_append_case parse_candidate_find output_candidate_find
      split: option.splits)

lemma plan_GET_ok:
  assumes "auth = Some userId" and "userId \<noteq> []"
    and "requireEnv ''OPENAI_API_KEY'' k = Inr apiKey"
    and "requireEnv ''OPENAI_MODEL'' m = Inr mdl"
    and "up = Upstream True st rawText" and "JSON_parse pf rawText = Some parsed"
    and "truthy parsed"
  shows "plan_GET pf now auth k m up
         = (case first_accepted pf parsed of
              None \<Rightarrow>
                JsonError
                  (js ''OpenAI returned an unexpected format. Check server logs for the raw response.'')
                  502
            | Some c \<Rightarrow>
                Json \<lparr>body_plan = fst c,
                      body_meta = \<lparr>pm_model = mdl, generatedAt = now,
                                    extractedFrom = snd c\<rparr>\<rparr>)"
  using assms
  by (simp add: plan_GET_def Let_def extract_first_accepted split: option.splits prod.splits)

lemma looksLikePlan_iff:
  "looksLikePlan x \<longleftrightarrow>
   (\<exists>kvs s e ds. x = JObj kvs
      \<and> map_of kvs (js ''horizon_start_date'') = Some (JStr s)
      \<and> map_of kvs (js ''horizon_end_date'') = Some (JStr e)
      \<and> map_of kvs (js ''days'') = Some (JArr ds))"
proof -
  have s: "as_str v = Some t \<longleftrightarrow> v = Some (JStr t)" for v t
    by (cases v rule: as_str.cases) auto
  have a: "as_arr v = Some t \<longleftrightarrow> v = Some (JArr t)" for v t
    by (cases v rule: as_arr.cases) auto
  show ?thesis
    by (cases x) (auto simp: looksLikePlan_def s a)
qed

lemma find_first:
  "(\<forall>d\<in>set pre. \<not> P d) \<Longrightarrow> P c \<Longrightarrow> List.find P (pre @ c # post) = Some c"
  by (induction pre) auto

lemma ex_gen_accept:
  "plan_GET ex_gen_pf 5 (Some (js ''u1'')) (Some (js ''k'')) (Some (js ''m''))
     (Upstream True 200 (js ''BODY'')) = Json ex_gen_body"
  by code_simp

text \<open>
  C4, as stated, fails: the generator hands a candidate to the caller after the
  lightweight check \<open>looksLikePlan\<close> only. A plan whose post has the suggested time
  \<open>9am\<close> is accepted, although \<open>isValidPlan\<close> rejects it.
\<close>

theorem generator_accepts_unvalidated:
  "plan_GET ex_gen_pf 5 (Some (js ''u1'')) (Some (js ''k'')) (Some (js ''m''))
     (Upstream True 200 (js ''BODY''))
   = Json \<lparr>body_plan = ex_loose_plan,
           body_meta = \<lparr>pm_model = js ''m'', generatedAt = 5,
                         extractedFrom = ''from payload.output_text''\<rparr>\<rparr>
   \<and> \<not> isValidPlan ex_loose_plan"
  by code_simp

text \<open>
  C4, amended. For every upstream response payload, the extraction of the generator is
  the first candidate of the payload that passes \<open>looksLikePlan\<close>, in the fixed order
  of \<open>candidates\<close>: the parsed \<open>output_text\<close>; then, for every output entry and every
  element of its content array, its \<open>json\<close> field as it is and its parsed \<open>text\<close>,
  \<open>value\<close>, \<open>output_text\<close> and \<open>content\<close> fields; last the payload itself. So a
  candidate that passes, with none before it that passes, is the plan the call returns
  when the upstream response is \<open>ok\<close>, and a plan the call returns is such a candidate.
  \<open>looksLikePlan\<close> holds exactly of an object with string \<open>horizon_start_date\<close> and
  \<open>horizon_end_date\<close> and an array \<open>days\<close>, which every plan that passes
  \<open>isValidPlan\<close> is. When the upstream response is \<open>ok\<close> and no candidate passes, the
  call fails, with one of five fixed messages, none of which holds the upstream payload.
\<close>

theorem generator_accepts_shape:
  "extractPlanFromResponsesPayload pf payload = first_accepted pf payload
   \<and> (candidates pf payload = pre @ c # post \<and> looksLikePlan (fst c)
       \<and> (\<forall>d\<in>set pre. \<not> looksLikePlan (fst d))
       \<longrightarrow> extractPlanFromResponsesPayload pf payload = Some c)
   \<and> (auth = Some userId \<and> userId \<noteq> []
       \<and> requireEnv ''OPENAI_API_KEY'' k = Inr apiKey
       \<and> requireEnv ''OPENAI_MODEL'' m = Inr mdl
       \<and> up = Upstream True st rawText \<and> JSON_parse pf rawText = Some parsed \<and> truthy parsed
       \<longrightarrow> plan_GET pf now auth k m up
           = (case first_accepted pf parsed of
                None \<Rightarrow>
                  JsonError
                    (js ''OpenAI returned an unexpected format. Check server logs for the raw response.'')
                    502
              | Some a \<Rightarrow>
                  Json \<lparr>body_plan = fst a,
                        body_meta = \<lparr>pm_model = mdl, generatedAt = now,
                                      extractedFrom = snd a\<rparr>\<rparr>))
   \<and> (plan_GET pf now auth k m up = Json body \<longrightarrow>
        looksLikePlan (body_plan body)
        \<and> (\<exists>st rawText parsed.
              up = Upstream True st rawText \<and> JSON_parse pf rawText = Some parsed
              \<and> extractPlanFromResponsesPayload pf parsed
                  = Some (body_plan body, extractedFrom (body_meta body))
              \<and> first_accepted pf parsed
                  = Some (body_plan body, extractedFrom (body_meta body))))
   \<and> (up = Upstream True st' rawText'
       \<and> (\<forall>parsed. JSON_parse pf rawText' = Some parsed
              \<longrightarrow> extractPlanFromResponsesPayload pf parsed = None)
       \<longrightarrow> plan_GET pf now auth k m up
           \<in> {JsonError (js ''Unauthorized'') 401,
              JsonError (js ''Missing environment variable: OPENAI_API_KEY'') 500,
              JsonError (js ''Missing environment variable: OPENAI_MODEL'') 500,
              JsonError (js ''OpenAI returned non-JSON response. Check server logs.'') 502,
              JsonError
                (js ''OpenAI returned an unexpected format. Check server logs for the raw response.'')
                502})
   \<and> (looksLikePlan x \<longleftrightarrow>
        (\<exists>kvs s e ds. x = JObj kvs
           \<and> map_of kvs (js ''horizon_start_date'') = Some (JStr s)
           \<and> map_of kvs (js ''horizon_end_date'') = Some (JStr e)
           \<and> map_of kvs (js ''days'') = Some (JArr ds)))
   \<and> (isValidPlan j \<longrightarrow> looksLikePlan j)"
proof -
  have a: "looksLikePlan (body_plan body)
      \<and> (\<exists>st rawText parsed.
            up = Upstream True st rawText \<and> JSON_parse pf rawText = Some parsed
            \<and> extractPlanFromResponsesPayload pf parsed
                = Some (body_plan body, extractedFrom (body_meta body))
            \<and> first_accepted pf parsed
                = Some (body_plan body, extractedFrom (body_meta body)))"
    if g: "plan_GET pf now auth k m up = Json body"
  proof -
    from plan_GET_Json [OF g] obtain st rawText parsed where
      e: "up = Upstream True st rawText" "JSON_parse pf rawText = Some parsed"
        "extractPlanFromResponsesPayload pf parsed
          = Some (body_plan body, extractedFrom (body_meta body))"
      by blast
    from e(3) have "first_accepted pf parsed
          = Some (body_plan body, extractedFrom (body_meta body))"
      by (simp add: extract_first_accepted)
    with extract_shape [OF e(3)] e show ?thesis by blast
  qed
  have b: "extractPlanFromResponsesPayload pf payload = Some c"
    if "candidates pf payload = pre @ c # post" "looksLikePlan (fst c)"
      "\<forall>d\<in>set pre. \<not> looksLikePlan (fst d)"
    using that by (simp add: extract_first_accepted first_accepted_def find_first)
  have c: "plan_GET pf now auth k m up
           = (case first_accepted pf parsed of
                None \<Rightarrow>
                  JsonError
                    (js ''OpenAI returned an unexpected format. Check server logs for the raw response.'')
                    502
              | Some a \<Rightarrow>
                  Json \<lparr>body_plan = fst a,
                        body_meta = \<lparr>pm_model = mdl, generatedAt = now,
                                      extractedFrom = snd a\<rparr>\<rparr>)"
    if "auth = Some userId \<and> userId \<noteq> []
       \<and> requireEnv ''OPENAI_API_KEY'' k = Inr apiKey
       \<and> requireEnv ''OPENAI_MODEL'' m = Inr mdl
       \<and> up = Upstream True st rawText \<and> JSON_parse pf rawText = Some parsed \<and> truthy parsed"
    using that by (intro plan_GET_ok) blast+
  from a b c extract_first_accepted [of pf payload]
    plan_GET_no_candidate [of up st' rawText' pf now auth k m] looksLikePlan_iff [of x]
    valid_plan_looks [of j]
  show ?thesis by blast
qed

lemma ex_nested_candidates:
  "candidates ex_gen_pf ex_nested_payload
   = [(JObj [(js ''id'', JStr (js ''resp_1''))], ''from payload.output_text''),
      (ex_plan_json, ''from output.content.json''),
      (ex_nested_payload, ''from payload root'')]"
  by code_simp

theorem generator_accepts_shape_witness:
  "plan_GET ex_gen_pf 5 (Some (js ''u1'')) (Some (js ''k'')) (Some (js ''m''))
     (Upstream True 200 (js ''BODY'')) = Json ex_gen_body
   \<and> looksLikePlan (body_plan ex_gen_body)
   \<and> requireEnv ''OPENAI_API_KEY'' (Some (js ''k'')) = Inr (js ''k'')
   \<and> requireEnv ''OPENAI_MODEL'' (Some (js ''m'')) = Inr (js ''m'')
   \<and> JSON_parse ex_gen_pf (js ''NESTED'') = Some ex_nested_payload \<and> truthy ex_nested_payload
   \<and> candidates ex_gen_pf ex_nested_payload
       = [(JObj [(js ''id'', JStr (js ''resp_1''))], ''from payload.output_text'')]
         @ (ex_plan_json, ''from output.content.json'') # [(ex_nested_payload, ''from payload root'')]
   \<and> \<not> looksLikePlan (JObj [(js ''id'', JStr (js ''resp_1''))])
   \<and> isValidPlan ex_plan_json \<and> looksLikePlan ex_plan_json
   \<and> extractPlanFromResponsesPayload ex_gen_pf ex_nested_payload
       = Some (ex_plan_json, ''from output.content.json'')
   \<and> plan_GET ex_gen_pf 5 (Some (js ''u1'')) (Some (js ''k'')) (Some (js ''m''))
        (Upstream True 200 (js ''NESTED'')) = Json ex_nested_body
   \<and> JSON_parse ex_gen_pf (js ''OTHER'') = Some (JObj [(js ''id'', JStr (js ''resp_1''))])
   \<and> extractPlanFromResponsesPayload ex_gen_pf (JObj [(js ''id'', JStr (js ''resp_1''))]) = None
   \<and> plan_GET ex_gen_pf 5 (Some (js ''u1'')) (Some (js ''k'')) (Some (js ''m''))
        (Upstream True 200 (js ''OTHER''))
       \<in> {JsonError (js ''Unauthorized'') 401,
          JsonError (js ''Missing environment variable: OPENAI_API_KEY'') 500,
          JsonError (js ''Missing environment variable: OPENAI_MODEL'') 500,
          JsonError (js ''OpenAI returned non-JSON response. Check server logs.'') 502,
          JsonError
            (js ''OpenAI returned an unexpected format. Check server logs for the raw response.'')
            502}"
proof -
  have p: "JSON_parse ex_gen_pf (js ''OTHER'') = Some (JObj [(js ''id'', JStr (js ''resp_1''))])"
    by code_simp
  have pn: "JSON_parse ex_gen_pf (js ''NESTED'') = Some ex_nested_payload"
    by code_simp
  have tn: "truthy ex_nested_payload" by (simp add: ex_nested_payload_def)
  have ek: "requireEnv ''OPENAI_API_KEY'' (Some (js ''k'')) = Inr (js ''k'')" by code_simp
  have em: "requireEnv ''OPENAI_MODEL'' (Some (js ''m'')) = Inr (js ''m'')" by code_simp
  have u: "js ''u1'' \<noteq> []" by (simp add: js_def)
  have n: "extractPlanFromResponsesPayload ex_gen_pf (JObj [(js ''id'', JStr (js ''resp_1''))]) = None"
    by code_simp
  have nl: "\<not> looksLikePlan (JObj [(js ''id'', JStr (js ''resp_1''))])"
    by (simp add: looksLikePlan_def js_def)
  have v: "isValidPlan ex_plan_json" by code_simp
  have cs: "candidates ex_gen_pf ex_nested_payload
       = [(JObj [(js ''id'', JStr (js ''resp_1''))], ''from payload.output_text'')]
         @ (ex_plan_json, ''from output.content.json'') # [(ex_nested_payload, ''from payload root'')]"
    using ex_nested_candidates by simp
  note t1 = generator_accepts_shape [where pf = ex_gen_pf and now = 5 and auth = "Some (js ''u1'')"
      and k = "Some (js ''k'')" and m = "Some (js ''m'')" and up = "Upstream True 200 (js ''BODY'')"
      and body = ex_gen_body and j = ex_plan_json and payload = ex_nested_payload
      and pre = "[]" and c = "(ex_plan_json, ''x'')" and post = "[]" and userId = "js ''u1''"
      and apiKey = "js ''k''" and mdl = "js ''m''" and st = 200 and rawText = "js ''BODY''"
      and parsed = ex_nested_payload and st' = 200 and rawText' = "js ''BODY''" and x = ex_plan_json]
  note t2 = generator_accepts_shape [where pf = ex_gen_pf and now = 5 and auth = "Some (js ''u1'')"
      and k = "Some (js ''k'')" and m = "Some (js ''m'')" and up = "Upstream True 200 (js ''OTHER'')"
      and st' = 200 and rawText' = "js ''OTHER''" and body = ex_gen_body and j = ex_plan_json
      and payload = ex_nested_payload
      and pre = "[]" and c = "(ex_plan_json, ''x'')" and post = "[]" and userId = "js ''u1''"
      and apiKey = "js ''k''" and mdl = "js ''m''" and st = 200 and rawText = "js ''OTHER''"
      and parsed = ex_nested_payload and x = ex_plan_json]
  note t3 = generator_accepts_shape [where pf = ex_gen_pf and now = 5 and auth = "Some (js ''u1'')"
      and userId = "js ''u1''" and apiKey = "js ''k''" and mdl = "js ''m''"
      and k = "Some (js ''k'')" and m = "Some (js ''m'')" and up = "Upstream True 200 (js ''NESTED'')"
      and st = 200 and rawText = "js ''NESTED''" and parsed = ex_nested_payload
      and payload = ex_nested_payload
      and pre = "[(JObj [(js ''id'', JStr (js ''resp_1''))], ''from payload.output_text'')]"
      and c = "(ex_plan_json, ''from output.content.json'')"
      and post = "[(ex_nested_payload, ''from payload root'')]"
      and body = ex_nested_body and st' = 200 and rawText' = "js ''NESTED''"
      and x = ex_plan_json and j = ex_plan_json]
  from t1 ex_gen_accept have s1: "looksLikePlan (body_plan ex_gen_body)" by blast
  from t1 v have s3: "looksLikePlan ex_plan_json" by blast
  have h1: "looksLikePlan (fst (ex_plan_json, ''from output.content.json''))"
    using s3 by simp
  have h2: "\<forall>d\<in>set [(JObj [(js ''id'', JStr (js ''resp_1''))], ''from payload.output_text'')].
              \<not> looksLikePlan (fst d)"
    using nl by simp
  from t3 cs h1 h2
  have x: "extractPlanFromResponsesPayload ex_gen_pf ex_nested_payload
       = Some (ex_plan_json, ''from output.content.json'')"
    by blast
  from t3 have "first_accepted ex_gen_pf ex_nested_payload
       = extractPlanFromResponsesPayload ex_gen_pf ex_nested_payload" by metis
  with x have fa: "first_accepted ex_gen_pf ex_nested_payload
       = Some (ex_plan_json, ''from output.content.json'')" by simp
  from t3 u ek em pn tn
  have "plan_GET ex_gen_pf 5 (Some (js ''u1'')) (Some (js ''k'')) (Some (js ''m''))
        (Upstream True 200 (js ''NESTED''))
        = (case first_accepted ex_gen_pf ex_nested_payload of
                None \<Rightarrow>
                  JsonError
                    (js ''OpenAI returned an unexpected format. Check server logs for the raw response.'')
                    502
              | Some a \<Rightarrow>
                  Json \<lparr>body_plan = fst a,
                        body_meta = \<lparr>pm_model = js ''m'', generatedAt = 5,
                                      extractedFrom = snd a\<rparr>\<rparr>)"
    by blast
  with fa have g: "plan_GET ex_gen_pf 5 (Some (js ''u1'')) (Some (js ''k'')) (Some (js ''m''))
        (Upstream True 200 (js ''NESTED'')) = Json ex_nested_body"
    by (simp add: ex_nested_body_def)
  from p n have "\<forall>parsed. JSON_parse ex_gen_pf (js ''OTHER'') = Some parsed
              \<longrightarrow> extractPlanFromResponsesPayload ex_gen_pf parsed = None"
    by simp
  with t2 have s2: "plan_GET ex_gen_pf 5 (Some (js ''u1'')) (Some (js ''k'')) (Some (js ''m''))
        (Upstream True 200 (js ''OTHER''))
       \<in> {JsonError (js ''Unauthorized'') 401,
          JsonError (js ''Missing environment variable: OPENAI_API_KEY'') 500,
          JsonError (js ''Missing environment variable: OPENAI_MODEL'') 500,
          JsonError (js ''OpenAI returned non-JSON response. Check server logs.'') 502,
          JsonError
            (js ''OpenAI returned an unexpected format. Check server logs for the raw response.'')
            502}"
    by blast
  from ex_gen_accept s1 ek em pn tn cs nl v s3 x g p n s2 show ?thesis by blast
qed

end
